theory Spec2Isabelle
  imports Main "HOL-Library.AList"
begin

section \<open>Interpreter values and the taint store\<close>

text \<open>
  The aspects of \<^verbatim>\<open>AspectOperatorAdd.cpp\<close> and \<^verbatim>\<open>AspectStr.cpp\<close> work on
  \<^verbatim>\<open>PyObject*\<close> pointers and on three kinds of shared heap cells: the tainting map
  (identity of a value to a \<^verbatim>\<open>TaintedObjectPtr\<close>), the tainted objects (each a vector
  of \<^verbatim>\<open>TaintRangePtr\<close>) and the taint ranges themselves. Pointers are addresses
  (naturals) into explicit stores, so that two map entries holding the same
  tainted object, or two tainted objects holding the same range, are visible.
  A pointer is an identity; the record behind it carries the type and the value the
  object has when the pointer is read. Of reference counting the model keeps what the
  two files do themselves: the identities on which they call \<^verbatim>\<open>Py_DecRef\<close> or
  \<^verbatim>\<open>Py_DECREF\<close>.
\<close>

datatype pyvalue =
    PyUnicode string
  | PyBytes string
  | PyByteArray string
  | PyLong int

text \<open>A \<^verbatim>\<open>PyObject*\<close>: the address is the identity the tainting map is keyed by.\<close>

record pyobject =
  obj_id :: nat
  ob_val :: pyvalue
  interned :: bool

datatype pyerror =
    PyExc_ValueError string
  | PyExc_TypeError string
  | PyExc_LookupError string
  | PyExc_UnicodeDecodeError string
  | PyExc_BytesWarning string

datatype cpp_exception =
    error_already_set string
  | std_exception string
  | unknown_exception

record TaintRange =
  start :: int
  rlength :: int
  source :: string

text \<open>
  What the two files take from the rest of the program: the constants of the headers
  that are not part of the sources (\<^verbatim>\<open>TaintedObject::TAINT_RANGE_LIMIT\<close>,
  \<^verbatim>\<open>MSG_ERROR_N_PARAMS\<close>) and the CPython operations the aspects wrap. An operation of
  the interpreter returns \<open>Inl\<close> of the Python error it sets (the C function then
  returns \<^verbatim>\<open>NULL\<close>) or \<open>Inr\<close> of its result.
\<close>

record env =
  TAINT_RANGE_LIMIT :: nat
  MSG_ERROR_N_PARAMS :: string
  PyNumber_Add :: "pyobject \<Rightarrow> pyobject \<Rightarrow> pyerror + pyobject"
  PyNumber_InPlaceAdd :: "pyobject \<Rightarrow> pyobject \<Rightarrow> pyerror + pyobject"
  PyObject_Str :: "pyobject \<Rightarrow> pyerror + pyobject"
  PyObject_CallFunction :: "pyobject \<Rightarrow> pyobject option list \<Rightarrow> pyerror + pyobject"
  PyUnicode_Decode :: "string \<Rightarrow> string \<Rightarrow> string \<Rightarrow> pyerror + pyobject"

text \<open>
  The mutable state an aspect call can read or write.
  \<^item> \<open>tx_map\<close>: what \<^verbatim>\<open>get_tainting_map()\<close> returns, \<open>None\<close> for the null pointer;
    an association list from a value's identity to the address of its tainted object.
  \<^item> \<open>tainted_objects\<close>: the \<^verbatim>\<open>ranges_\<close> vector of the tainted object at an address.
  \<^item> \<open>taint_ranges\<close>: the \<^verbatim>\<open>TaintRange\<close> instance at an address.
  \<^item> \<open>next_to\<close>, \<open>next_range\<close>, \<open>next_obj\<close>: the next free address of each allocator.
  \<^item> \<open>fasttainted\<close>: the identities carrying the quick "may be tainted" mark.
  \<^item> \<open>released\<close>: the identities whose reference the aspect has given up
    (\<^verbatim>\<open>Py_DecRef\<close>, \<^verbatim>\<open>Py_DECREF\<close>); an object that only the aspect referenced, such
    as the result of the real operation, no longer exists after that.
  \<^item> \<open>py_err\<close>: the interpreter's error indicator.
  \<^item> \<open>iast_log\<close>: what \<^verbatim>\<open>iast_taint_log_error\<close> has been given.
  \<^item> \<open>fault_in\<close>: fault injection; \<open>Some (n, e)\<close> makes the \<open>n\<close>-th next taint helper
    call throw \<open>e\<close> (a lookup, allocation or store failure), \<open>None\<close> means no fault.
\<close>

record state =
  tx_map :: "(nat \<times> nat) list option"
  tainted_objects :: "nat \<Rightarrow> nat list"
  taint_ranges :: "nat \<Rightarrow> TaintRange"
  next_to :: nat
  next_range :: nat
  next_obj :: nat
  fasttainted :: "nat set"
  released :: "nat set"
  py_err :: "pyerror option"
  iast_log :: "string list"
  fault_in :: "(nat \<times> cpp_exception) option"

text \<open>A step that can throw: \<open>Inl\<close> carries the C++ exception and the state it left.\<close>

type_synonym 'a res = "(cpp_exception \<times> state) + ('a \<times> state)"

text \<open>Sequencing: the next statement runs in the state the previous one left.\<close>

definition bind_res :: "'a res \<Rightarrow> ('a \<Rightarrow> state \<Rightarrow> 'b res) \<Rightarrow> 'b res" where
  "bind_res m f = (case m of Inl x \<Rightarrow> Inl x | Inr (a, s) \<Rightarrow> f a s)"

definition may_throw :: "state \<Rightarrow> (cpp_exception \<times> state) + state" where
  "may_throw s =
     (case fault_in s of
        None \<Rightarrow> Inr s
      | Some (n, e) \<Rightarrow>
          (case n of
             0 \<Rightarrow> Inl (e, s\<lparr>fault_in := None\<rparr>)
           | Suc k \<Rightarrow> Inr (s\<lparr>fault_in := Some (k, e)\<rparr>)))"

definition what :: "cpp_exception \<Rightarrow> string" where
  "what e = (case e of error_already_set w \<Rightarrow> w | std_exception w \<Rightarrow> w | unknown_exception \<Rightarrow> [])"

text \<open>
  Modelled from the spec: \<^verbatim>\<open>iast_taint_log_error\<close> is not part of the sources; it
  hands the message to the "external diagnostic sink", here a list of messages.
\<close>

definition iast_taint_log_error :: "string \<Rightarrow> state \<Rightarrow> state" where
  "iast_taint_log_error msg s = s\<lparr>iast_log := iast_log s @ [msg]\<rparr>"

text \<open>\<^verbatim>\<open>py::set_error\<close>: sets the interpreter's error indicator.\<close>

definition set_error :: "pyerror \<Rightarrow> state \<Rightarrow> state" where
  "set_error e s = s\<lparr>py_err := Some e\<rparr>"

subsection \<open>References\<close>

text \<open>
  \<^verbatim>\<open>Py_DecRef\<close> gives up the caller's reference to an object and does nothing for
  the null pointer.
\<close>

definition Py_DecRef :: "pyobject option \<Rightarrow> state \<Rightarrow> state" where
  "Py_DecRef p s =
     (case p of
        None \<Rightarrow> s
      | Some obj \<Rightarrow> s\<lparr>released := insert (obj_id obj) (released s)\<rparr>)"

text \<open>
  The macro \<^verbatim>\<open>Py_DECREF\<close> reads the reference count through the pointer without a
  test: on the null pointer the process dies, which no \<^verbatim>\<open>catch\<close> clause sees.
\<close>

datatype ending = Completed | Null_dereference

definition Py_DECREF :: "pyobject option \<Rightarrow> state \<Rightarrow> ending \<times> state" where
  "Py_DECREF p s =
     (case p of
        None \<Rightarrow> (Null_dereference, s)
      | Some obj \<Rightarrow> (Completed, s\<lparr>released := insert (obj_id obj) (released s)\<rparr>))"

text \<open>How a call can end without returning: an exception nobody caught, or the process died.\<close>

datatype escape = uncaught cpp_exception | died

subsection \<open>Type checks of the interpreter\<close>

definition PyUnicode_Check :: "pyobject \<Rightarrow> bool" where
  "PyUnicode_Check obj = (case ob_val obj of PyUnicode _ \<Rightarrow> True | _ \<Rightarrow> False)"

definition PyBytes_Check :: "pyobject \<Rightarrow> bool" where
  "PyBytes_Check obj = (case ob_val obj of PyBytes _ \<Rightarrow> True | _ \<Rightarrow> False)"

definition PyByteArray_Check :: "pyobject \<Rightarrow> bool" where
  "PyByteArray_Check obj = (case ob_val obj of PyByteArray _ \<Rightarrow> True | _ \<Rightarrow> False)"

datatype pytype = T_str | T_bytes | T_bytearray | T_int

definition PyObject_Type :: "pyobject \<Rightarrow> pytype" where
  "PyObject_Type obj =
     (case ob_val obj of
        PyUnicode _ \<Rightarrow> T_str | PyBytes _ \<Rightarrow> T_bytes
      | PyByteArray _ \<Rightarrow> T_bytearray | PyLong _ \<Rightarrow> T_int)"

subsection \<open>Helpers of the taint engine that the two files call\<close>

text \<open>
  Modelled from the spec: \<^verbatim>\<open>is_text\<close> is declared in \<^verbatim>\<open>Helpers.h\<close>, which is not
  part of the sources. The spec calls the values the engine tracks "text-like": text,
  bytes and byte arrays.
\<close>

definition is_text :: "pyobject \<Rightarrow> bool" where
  "is_text obj \<longleftrightarrow> PyUnicode_Check obj \<or> PyBytes_Check obj \<or> PyByteArray_Check obj"

text \<open>
  Modelled from the spec: \<^verbatim>\<open>args_are_text_and_same_type\<close> is not part of the sources;
  by its name, both operands are text-like and of one type.
\<close>

definition args_are_text_and_same_type :: "pyobject \<Rightarrow> pyobject \<Rightarrow> bool" where
  "args_are_text_and_same_type a b \<longleftrightarrow>
     is_text a \<and> is_text b \<and> PyObject_Type a = PyObject_Type b"

text \<open>
  Modelled from the spec: \<^verbatim>\<open>is_notinterned_notfasttainted_unicode\<close> is not part of the
  sources; by its name and the comment at its call ("quickly skip if both are
  noninterned-unicodes and not tainted") it holds of a text value that is not interned
  and does not carry the quick taint mark.
\<close>

definition is_notinterned_notfasttainted_unicode :: "state \<Rightarrow> pyobject \<Rightarrow> bool" where
  "is_notinterned_notfasttainted_unicode s obj \<longleftrightarrow>
     PyUnicode_Check obj \<and> \<not> interned obj \<and> obj_id obj \<notin> fasttainted s"

text \<open>
  Modelled from the spec: \<^verbatim>\<open>get_pyobject_size\<close> is not part of the sources; it is the
  length of a text-like value (the spec's "left operand's length"), and 0 for any
  other value.
\<close>

definition get_pyobject_size :: "pyobject \<Rightarrow> nat" where
  "get_pyobject_size obj =
     (case ob_val obj of
        PyUnicode t \<Rightarrow> length t | PyBytes t \<Rightarrow> length t
      | PyByteArray t \<Rightarrow> length t | PyLong _ \<Rightarrow> 0)"

text \<open>
  Modelled from the spec: \<^verbatim>\<open>get_tainted_object\<close> is not part of the sources; it is
  the map's \<^verbatim>\<open>get(identity) -> optional TaintedObject\<close>, and a disabled map reports
  "not tainted". A lookup is one of the steps the spec lists as able to fail.
\<close>

definition get_tainted_object :: "pyobject \<Rightarrow> state \<Rightarrow> nat option res" where
  "get_tainted_object obj s =
     (case may_throw s of
        Inl x \<Rightarrow> Inl x
      | Inr s1 \<Rightarrow>
          Inr (case tx_map s1 of None \<Rightarrow> None | Some m \<Rightarrow> map_of m (obj_id obj), s1))"

text \<open>
  Modelled from the spec: \<^verbatim>\<open>set_tainted_object\<close> is not part of the sources; it is
  the map's \<^verbatim>\<open>set(identity, TaintedObject)\<close>: the entry of the value's identity now
  holds the given tainted object (the reference it is given, as the caller passes the
  pointer it looked up), an existing entry is replaced, and a disabled map ignores the
  insert, as does a null value or a null tainted object. The value gets the quick taint
  mark when it is a text that is not interned.
\<close>

definition set_tainted_object :: "pyobject option \<Rightarrow> nat option \<Rightarrow> state \<Rightarrow> unit res" where
  "set_tainted_object str tainted_object s =
     (case may_throw s of
        Inl x \<Rightarrow> Inl x
      | Inr s1 \<Rightarrow>
          (case (str, tainted_object, tx_map s1) of
             (Some obj, Some tobj, Some m) \<Rightarrow>
               Inr ((), s1\<lparr>tx_map := Some (AList.update (obj_id obj) tobj m),
                           fasttainted :=
                             (if PyUnicode_Check obj \<and> \<not> interned obj
                              then insert (obj_id obj) (fasttainted s1)
                              else fasttainted s1)\<rparr>)
           | _ \<Rightarrow> Inr ((), s1)))"

text \<open>
  Modelled from the spec: \<^verbatim>\<open>new_pyobject_id\<close> is not part of the sources; the spec
  has the result "re-keyed": the same content under a new identity, which no other
  value has. The null pointer stays null.
\<close>

definition new_pyobject_id :: "pyobject option \<Rightarrow> state \<Rightarrow> pyobject option res" where
  "new_pyobject_id str s =
     (case may_throw s of
        Inl x \<Rightarrow> Inl x
      | Inr s1 \<Rightarrow>
          (case str of
             None \<Rightarrow> Inr (None, s1)
           | Some obj \<Rightarrow>
               Inr (Some (obj\<lparr>obj_id := next_obj s1, interned := False\<rparr>),
                    s1\<lparr>next_obj := Suc (next_obj s1)\<rparr>)))"

text \<open>New \<^verbatim>\<open>TaintRange\<close> instances for a list of range values, at fresh addresses.\<close>

fun alloc_ranges :: "TaintRange list \<Rightarrow> state \<Rightarrow> nat list \<times> state" where
  "alloc_ranges [] s = ([], s)"
| "alloc_ranges (r # rs) s =
     (let a = next_range s;
          s1 = s\<lparr>taint_ranges := (taint_ranges s)(a := r), next_range := Suc a\<rparr>;
          (as, s2) = alloc_ranges rs s1
      in (a # as, s2))"

text \<open>A new \<^verbatim>\<open>TaintedObject\<close> holding the given range instances.\<close>

definition alloc_tainted_object :: "nat list \<Rightarrow> state \<Rightarrow> nat \<times> state" where
  "alloc_tainted_object ids s =
     (next_to s, s\<lparr>tainted_objects := (tainted_objects s)(next_to s := ids),
                   next_to := Suc (next_to s)\<rparr>)"

text \<open>
  Modelled from the spec: \<^verbatim>\<open>Initializer::allocate_tainted_object_copy\<close> is not part of
  the sources. The spec: "build a new TaintedObject by copying the left operand's
  ranges as-is (or starting empty if left is untainted)", and, of copies, "new
  TaintRange instances are created, sharing the source reference".
\<close>

definition allocate_tainted_object_copy :: "nat option \<Rightarrow> state \<Rightarrow> nat res" where
  "allocate_tainted_object_copy from s =
     (case may_throw s of
        Inl x \<Rightarrow> Inl x
      | Inr s1 \<Rightarrow>
          (let vals = (case from of
                         None \<Rightarrow> []
                       | Some t \<Rightarrow> map (taint_ranges s1) (tainted_objects s1 t));
               (ids, s2) = alloc_ranges vals s1
           in Inr (alloc_tainted_object ids s2)))"

definition shift_taint_range :: "int \<Rightarrow> TaintRange \<Rightarrow> TaintRange" where
  "shift_taint_range offset r = r\<lparr>start := start r + offset\<rparr>"

text \<open>
  Modelled from the spec: \<^verbatim>\<open>TaintedObject::add_ranges_shifted\<close> is not part of the
  sources. The spec: it "appends a copy of every range in other, with each copy's start
  increased by offset; copies share source with originals but are distinct range
  instances; respects the capacity cap, truncating from the end of the combined sequence
  once the cap is hit".
\<close>

definition add_ranges_shifted ::
  "env \<Rightarrow> nat \<Rightarrow> nat option \<Rightarrow> int \<Rightarrow> state \<Rightarrow> unit res" where
  "add_ranges_shifted E this other offset s =
     (case may_throw s of
        Inl x \<Rightarrow> Inl x
      | Inr s1 \<Rightarrow>
          (let own = tainted_objects s1 this;
               theirs = (case other of None \<Rightarrow> [] | Some t \<Rightarrow> tainted_objects s1 t);
               shifted = map (shift_taint_range offset) (map (taint_ranges s1) theirs);
               (ids, s2) = alloc_ranges (take (TAINT_RANGE_LIMIT E - length own) shifted) s1
           in Inr ((), s2\<lparr>tainted_objects := (tainted_objects s2)(this := own @ ids)\<rparr>)))"

text \<open>
  \<^verbatim>\<open>to_candidate_text and to_candidate_text->get_ranges().size() >= TAINT_RANGE_LIMIT\<close>
\<close>

definition at_range_limit :: "env \<Rightarrow> state \<Rightarrow> nat option \<Rightarrow> bool" where
  "at_range_limit E s tobj =
     (case tobj of
        None \<Rightarrow> False
      | Some t \<Rightarrow> length (tainted_objects s t) \<ge> TAINT_RANGE_LIMIT E)"

section \<open>The add aspect (AspectOperatorAdd.cpp)\<close>

text \<open>\<^verbatim>\<open>text_to_add == result_o\<close>: equality of two pointers, one of which may be null.\<close>

definition same_object :: "pyobject \<Rightarrow> pyobject option \<Rightarrow> bool" where
  "same_object a b = (case b of None \<Rightarrow> False | Some b' \<Rightarrow> obj_id a = obj_id b')"

definition add_aspect ::
  "env \<Rightarrow> pyobject option \<Rightarrow> pyobject \<Rightarrow> pyobject \<Rightarrow> state \<Rightarrow> pyobject option res" where
  "add_aspect E result_o candidate_text text_to_add s =
     (let len_candidate_text = get_pyobject_size candidate_text;
          len_text_to_add = get_pyobject_size text_to_add
      in
      if len_text_to_add = 0 \<and> len_candidate_text > 0 then Inr (Some candidate_text, s)
      else if len_text_to_add > 0 \<and> len_candidate_text = 0 \<and> same_object text_to_add result_o
      then Inr (Some text_to_add, s)
      else
        bind_res (get_tainted_object candidate_text s) (\<lambda>to_candidate_text s1.
          if at_range_limit E s1 to_candidate_text then
            bind_res (new_pyobject_id result_o s1) (\<lambda>res_new_id s2.
            bind_res (set_tainted_object res_new_id to_candidate_text
                        (Py_DecRef result_o s2)) (\<lambda>_ s3.
            Inr (res_new_id, s3)))
          else
            bind_res (get_tainted_object text_to_add s1) (\<lambda>to_text_to_add s2.
              if to_candidate_text = None \<and> to_text_to_add = None then Inr (result_o, s2)
              else if to_text_to_add = None then
                bind_res (new_pyobject_id result_o s2) (\<lambda>res_new_id s3.
                bind_res (set_tainted_object res_new_id to_candidate_text
                            (Py_DecRef result_o s3)) (\<lambda>_ s4.
                Inr (res_new_id, s4)))
              else
                bind_res (allocate_tainted_object_copy to_candidate_text s2) (\<lambda>tainted s3.
                bind_res (add_ranges_shifted E tainted to_text_to_add
                            (int len_candidate_text) s3) (\<lambda>_ s4.
                bind_res (set_tainted_object result_o (Some tainted) s4) (\<lambda>_ s5.
                Inr (result_o, s5)))))))"

text \<open>The message each \<^verbatim>\<open>catch\<close> clause of the add aspects logs.\<close>

definition add_error_message :: "cpp_exception \<Rightarrow> string" where
  "add_error_message e =
     (case e of
        error_already_set w \<Rightarrow> ''IAST propagation error in add_aspect. '' @ w
      | std_exception w \<Rightarrow> ''IAST propagation error in add_aspect. '' @ w
      | unknown_exception \<Rightarrow> ''Unkown IAST propagation error in add_aspect. '')"

text \<open>\<^verbatim>\<open>not tx_map or tx_map->empty()\<close>\<close>

definition no_tainting_map :: "state \<Rightarrow> bool" where
  "no_tainting_map s = (case tx_map s of None \<Rightarrow> True | Some m \<Rightarrow> m = [])"

text \<open>
  The entry points get the argument vector; \<^verbatim>\<open>nargs\<close> is its length. The real addition
  runs first; when it fails \<^verbatim>\<open>result_o\<close> is null and the interpreter's error is set.
\<close>

definition api_add_aspect :: "env \<Rightarrow> pyobject list \<Rightarrow> state \<Rightarrow> pyobject option \<times> state" where
  "api_add_aspect E args s =
     (case args of
        [candidate_text, text_to_add] \<Rightarrow>
          (let (result_o, s1) =
                 (case PyNumber_Add E candidate_text text_to_add of
                    Inl err \<Rightarrow> (None, set_error err s)
                  | Inr r \<Rightarrow> (Some r, s))
           in
           if no_tainting_map s1 then (result_o, s1)
           else if \<not> args_are_text_and_same_type candidate_text text_to_add then (result_o, s1)
           else if is_notinterned_notfasttainted_unicode s1 candidate_text
                   \<and> is_notinterned_notfasttainted_unicode s1 text_to_add
           then (result_o, s1)
           else
             (case add_aspect E result_o candidate_text text_to_add s1 of
                Inr (r, s2) \<Rightarrow> (r, s2)
              | Inl (e, s2) \<Rightarrow> (result_o, iast_taint_log_error (add_error_message e) s2)))
      | _ \<Rightarrow> (None, set_error (PyExc_ValueError (MSG_ERROR_N_PARAMS E)) s))"

text \<open>
  The in-place addition can change the object of the left operand and return it (a byte
  array does). The statements after the call read the operands through the same
  pointers, so a pointer to the object that was returned reads the value the object has
  now. The type and the interned flag of an object do not change.
\<close>

definition reread :: "pyobject option \<Rightarrow> pyobject \<Rightarrow> pyobject" where
  "reread result_o p =
     (case result_o of
        None \<Rightarrow> p
      | Some r \<Rightarrow> if obj_id r = obj_id p then p\<lparr>ob_val := ob_val r\<rparr> else p)"

definition api_add_inplace_aspect ::
  "env \<Rightarrow> pyobject list \<Rightarrow> state \<Rightarrow> pyobject option \<times> state" where
  "api_add_inplace_aspect E args s =
     (case args of
        [candidate_text, text_to_add] \<Rightarrow>
          (let (result_o, s1) =
                 (case PyNumber_InPlaceAdd E candidate_text text_to_add of
                    Inl err \<Rightarrow> (None, set_error err s)
                  | Inr r \<Rightarrow> (Some r, s))
           in
           if no_tainting_map s1 then (result_o, s1)
           else if \<not> args_are_text_and_same_type candidate_text text_to_add then (result_o, s1)
           else if is_notinterned_notfasttainted_unicode s1 candidate_text
                   \<and> is_notinterned_notfasttainted_unicode s1 text_to_add
           then (result_o, s1)
           else
             (case add_aspect E result_o (reread result_o candidate_text)
                     (reread result_o text_to_add) s1 of
                Inr (r, s2) \<Rightarrow> (r, s2)
              | Inl (e, s2) \<Rightarrow> (result_o, iast_taint_log_error (add_error_message e) s2)))
      | _ \<Rightarrow> (None, set_error (PyExc_ValueError (MSG_ERROR_N_PARAMS E)) s))"

section \<open>The str aspect (AspectStr.cpp)\<close>

subsection \<open>Operations of the interpreter that the aspect calls\<close>

definition tp_name :: "pyobject \<Rightarrow> string" where
  "tp_name obj =
     (case ob_val obj of
        PyUnicode _ \<Rightarrow> ''str'' | PyBytes _ \<Rightarrow> ''bytes''
      | PyByteArray _ \<Rightarrow> ''bytearray'' | PyLong _ \<Rightarrow> ''int'')"

text \<open>\<^verbatim>\<open>PyUnicode_GetLength\<close>: -1 and a \<^verbatim>\<open>TypeError\<close> for a value that is no text.\<close>

definition PyUnicode_GetLength :: "pyobject \<Rightarrow> state \<Rightarrow> int \<times> state" where
  "PyUnicode_GetLength obj s =
     (case ob_val obj of
        PyUnicode t \<Rightarrow> (int (length t), s)
      | _ \<Rightarrow> (- 1, set_error (PyExc_TypeError ''bad argument type for built-in operation'') s))"

text \<open>
  \<^verbatim>\<open>PyUnicode_AsUTF8\<close>, read only where \<^verbatim>\<open>has_encoding\<close> or \<^verbatim>\<open>has_errors\<close> has
  established a non-null text.
\<close>

definition PyUnicode_AsUTF8 :: "pyobject option \<Rightarrow> string" where
  "PyUnicode_AsUTF8 p =
     (case p of
        None \<Rightarrow> []
      | Some obj \<Rightarrow> (case ob_val obj of PyUnicode t \<Rightarrow> t | _ \<Rightarrow> []))"

text \<open>\<^verbatim>\<open>PyObject_Length\<close>: -1 for a value without a length.\<close>

definition PyObject_Length :: "pyobject \<Rightarrow> int" where
  "PyObject_Length obj =
     (case ob_val obj of
        PyUnicode t \<Rightarrow> int (length t) | PyBytes t \<Rightarrow> int (length t)
      | PyByteArray t \<Rightarrow> int (length t) | PyLong _ \<Rightarrow> - 1)"

text \<open>
  \<^verbatim>\<open>PyUnicode_Find(str, substr, 0, len(str), 1)\<close>: the first position of \<open>substr\<close> in
  \<open>str\<close>, -1 when there is none.
\<close>

definition PyUnicode_Find :: "pyobject \<Rightarrow> pyobject \<Rightarrow> int" where
  "PyUnicode_Find str substr =
     (let t = PyUnicode_AsUTF8 (Some str); u = PyUnicode_AsUTF8 (Some substr)
      in case List.find (\<lambda>i. take (length u) (drop i t) = u) [0 ..< Suc (length t)] of
           None \<Rightarrow> - 1
         | Some i \<Rightarrow> int i)"

text \<open>
  \<^verbatim>\<open>PyBytes_AsStringAndSize\<close>: the buffer of a bytes value; for any other value -1
  (here \<open>None\<close>) and a \<^verbatim>\<open>TypeError\<close>.
\<close>

definition PyBytes_AsStringAndSize :: "pyobject \<Rightarrow> state \<Rightarrow> string option \<times> state" where
  "PyBytes_AsStringAndSize obj s =
     (case ob_val obj of
        PyBytes t \<Rightarrow> (Some t, s)
      | _ \<Rightarrow> (None, set_error (PyExc_TypeError (''expected bytes, '' @ tp_name obj @ '' found'')) s))"

definition PyByteArray_AS_STRING :: "pyobject \<Rightarrow> string" where
  "PyByteArray_AS_STRING obj = (case ob_val obj of PyByteArray t \<Rightarrow> t | _ \<Rightarrow> [])"

text \<open>\<^verbatim>\<open>PyUnicode_FromString\<close>: a new text value.\<close>

definition PyUnicode_FromString :: "string \<Rightarrow> state \<Rightarrow> pyobject \<times> state" where
  "PyUnicode_FromString t s =
     (\<lparr>obj_id = next_obj s, ob_val = PyUnicode t, interned = False\<rparr>,
      s\<lparr>next_obj := Suc (next_obj s)\<rparr>)"

definition PyErr_Occurred :: "state \<Rightarrow> bool" where
  "PyErr_Occurred s \<longleftrightarrow> py_err s \<noteq> None"

definition PyErr_Clear :: "state \<Rightarrow> state" where
  "PyErr_Clear s = s\<lparr>py_err := None\<rparr>"

text \<open>
  Modelled from the spec: \<^verbatim>\<open>has_pyerr\<close> is declared in \<^verbatim>\<open>Helpers.h\<close>, which is not
  part of the sources; by its name, whether the interpreter's error indicator is set.
\<close>

definition has_pyerr :: "state \<Rightarrow> bool" where
  "has_pyerr s = PyErr_Occurred s"

subsection \<open>Helpers of the taint engine\<close>

text \<open>
  Modelled from the spec: \<^verbatim>\<open>get_ranges\<close> is not part of the sources. It returns the
  references (\<^verbatim>\<open>TaintRangeRefs\<close>) the value's tainted object holds, none for a value
  without an entry, and an error flag for a value the engine does not track.
\<close>

definition get_ranges :: "pyobject \<Rightarrow> state \<Rightarrow> (nat list \<times> bool) res" where
  "get_ranges obj s =
     (case may_throw s of
        Inl x \<Rightarrow> Inl x
      | Inr s1 \<Rightarrow>
          (if \<not> is_text obj then Inr (([], True), s1)
           else
             Inr (((case tx_map s1 of
                      None \<Rightarrow> []
                    | Some m \<Rightarrow>
                        (case map_of m (obj_id obj) of
                           None \<Rightarrow> []
                         | Some t \<Rightarrow> tainted_objects s1 t)), False), s1)))"

text \<open>
  Modelled from the spec: \<^verbatim>\<open>set_ranges\<close> is not part of the sources. The spec: "copy
  the input's ranges directly onto the output (no shift, no length change)", into a
  tainted object of the output's own ("created whenever a propagation rule must attach
  taint to a fresh result value"), the copies being new instances. A disabled map
  ignores the insert.
\<close>

definition set_ranges :: "pyobject \<Rightarrow> nat list \<Rightarrow> state \<Rightarrow> unit res" where
  "set_ranges str ranges s =
     (case may_throw s of
        Inl x \<Rightarrow> Inl x
      | Inr s1 \<Rightarrow>
          (case tx_map s1 of
             None \<Rightarrow> Inr ((), s1)
           | Some m \<Rightarrow>
               (let (ids, s2) = alloc_ranges (map (taint_ranges s1) ranges) s1;
                    (tobj, s3) = alloc_tainted_object ids s2
                in Inr ((), s3\<lparr>tx_map := Some (AList.update (obj_id str) tobj m),
                               fasttainted :=
                                 (if PyUnicode_Check str \<and> \<not> interned str
                                  then insert (obj_id str) (fasttainted s3)
                                  else fasttainted s3)\<rparr>))))"

text \<open>
  Modelled from the spec: \<^verbatim>\<open>copy_and_shift_ranges_from_strings\<close> is not part of the
  sources. The spec: "copy ranges shifted by that offset and with lengths adjusted to
  the output's total length".
\<close>

definition copy_and_shift_ranges_from_strings ::
  "pyobject \<Rightarrow> pyobject \<Rightarrow> int \<Rightarrow> int \<Rightarrow> state \<Rightarrow> unit res" where
  "copy_and_shift_ranges_from_strings str_1 str_2 offset new_length s =
     (case may_throw s of
        Inl x \<Rightarrow> Inl x
      | Inr s1 \<Rightarrow>
          (case tx_map s1 of
             None \<Rightarrow> Inr ((), s1)
           | Some m \<Rightarrow>
               (case map_of m (obj_id str_1) of
                  None \<Rightarrow> Inr ((), s1)
                | Some t \<Rightarrow>
                    (let vals = map (\<lambda>r. (shift_taint_range offset r)\<lparr>rlength := new_length\<rparr>)
                                  (map (taint_ranges s1) (tainted_objects s1 t));
                         (ids, s2) = alloc_ranges vals s1;
                         (tobj, s3) = alloc_tainted_object ids s2
                     in Inr ((), s3\<lparr>tx_map := Some (AList.update (obj_id str_2) tobj m),
                                    fasttainted :=
                                      (if PyUnicode_Check str_2 \<and> \<not> interned str_2
                                       then insert (obj_id str_2) (fasttainted s3)
                                       else fasttainted s3)\<rparr>)))))"

subsection \<open>The functions of AspectStr.cpp\<close>

text \<open>
  \<^verbatim>\<open>copy_ranges\<close> is a copy of the vector of references, so the loop writes the
  length into the instances the references point to.
\<close>

definition set_lengthupdated_ranges :: "pyobject \<Rightarrow> int \<Rightarrow> nat list \<Rightarrow> state \<Rightarrow> unit res" where
  "set_lengthupdated_ranges result result_len ranges s =
     (if no_tainting_map s then Inr ((), s)
      else
        (let copy_ranges = ranges;
             s1 = s\<lparr>taint_ranges :=
                      fold (\<lambda>range h. h(range := (h range)\<lparr>rlength := result_len\<rparr>))
                        copy_ranges (taint_ranges s)\<rparr>
         in set_ranges result copy_ranges s1))"

definition call_original_function ::
  "env \<Rightarrow> pyobject \<Rightarrow> pyobject \<Rightarrow> pyobject option \<Rightarrow> pyobject option \<Rightarrow> state
     \<Rightarrow> pyobject option \<times> state" where
  "call_original_function E orig_function text pyo_encoding pyo_errors s =
     (let (arg_errors, s1) =
            (case pyo_errors of
               Some e \<Rightarrow> (e, s)
             | None \<Rightarrow> PyUnicode_FromString ''strict'' s)
      in case PyObject_CallFunction E orig_function [Some text, pyo_encoding, Some arg_errors] of
           Inl err \<Rightarrow> (None, set_error err s1)
         | Inr res \<Rightarrow> (Some res, s1))"

text \<open>
  The call follows the vectorcall protocol: \<open>args\<close> are the \<^verbatim>\<open>nargs\<close> positional
  arguments (the original function, a flag, the value, then encoding and errors), and
  \<open>kwargs\<close> pairs each name of \<^verbatim>\<open>kwnames\<close> with its value \<^verbatim>\<open>args[nargs + i]\<close>; a
  null \<^verbatim>\<open>kwnames\<close> is the empty list. The loop over \<^verbatim>\<open>kwnames\<close>:
\<close>

fun get_args_kw ::
  "(string \<times> pyobject) list \<Rightarrow> nat \<Rightarrow> pyobject option \<Rightarrow> pyobject option
     \<Rightarrow> nat \<times> pyobject option \<times> pyobject option" where
  "get_args_kw [] effective_args pyo_encoding pyo_errors =
     (effective_args, pyo_encoding, pyo_errors)"
| "get_args_kw ((key, value) # kws) effective_args pyo_encoding pyo_errors =
     (if effective_args > 3 then (effective_args, pyo_encoding, pyo_errors)
      else if key = ''encoding'' then get_args_kw kws (effective_args + 1) (Some value) pyo_errors
      else if key = ''errors'' then get_args_kw kws (effective_args + 1) pyo_encoding (Some value)
      else get_args_kw kws effective_args pyo_encoding pyo_errors)"

text \<open>\<^verbatim>\<open>get_args\<close> is called with at least three positional arguments.\<close>

definition get_args ::
  "pyobject list \<Rightarrow> (string \<times> pyobject) list
     \<Rightarrow> nat \<times> pyobject \<times> pyobject \<times> pyobject option \<times> pyobject option" where
  "get_args args kwargs =
     (let nargs = length args;
          orig_function = args ! 0;
          text = args ! 2;
          (pyo_encoding, effective_args) = (if nargs > 3 then (Some (args ! 3), 2) else (None, 1));
          (pyo_errors, effective_args) =
            (if nargs > 4 then (Some (args ! 4), 3) else (None, effective_args));
          (effective_args, pyo_encoding, pyo_errors) =
            get_args_kw kwargs effective_args pyo_encoding pyo_errors
      in (effective_args, orig_function, text, pyo_encoding, pyo_errors))"

text \<open>\<^verbatim>\<open>std::to_string\<close> of a non-negative number.\<close>

fun to_string :: "nat \<Rightarrow> string" where
  "to_string n =
     (if n < 10 then [''0123456789'' ! n]
      else to_string (n div 10) @ [''0123456789'' ! (n mod 10)])"

text \<open>
  Lines 105 to 139: the conversion. It ends the call early (an error of the
  interpreter, returned as null), throws, or leaves \<^verbatim>\<open>result_o\<close>. The decoder returns
  null only with the error indicator set, so the test of \<^verbatim>\<open>result_o\<close> against null
  after \<^verbatim>\<open>PyErr_Occurred\<close> never succeeds.
\<close>

datatype conversion = Return_early "pyobject option" | Result_o pyobject

definition convert_text ::
  "env \<Rightarrow> pyobject \<Rightarrow> bool \<Rightarrow> bool \<Rightarrow> pyobject option \<Rightarrow> pyobject option \<Rightarrow> state
     \<Rightarrow> conversion res" where
  "convert_text E text has_encoding has_errors pyo_encoding pyo_errors s =
     (if \<not> has_encoding \<and> \<not> has_errors then
        (case PyObject_Str E text of
           Inl err \<Rightarrow> Inr (Return_early None, set_error err s)
         | Inr r \<Rightarrow> Inr (Result_o r, s))
      else
        (let (text_raw_bytes, s1) =
               (if PyByteArray_Check text then (Some (PyByteArray_AS_STRING text), s)
                else PyBytes_AsStringAndSize text s)
         in case text_raw_bytes of
              None \<Rightarrow>
                if has_pyerr s1 then Inr (Return_early None, s1)
                else Inl (error_already_set [], s1)
            | Some raw \<Rightarrow>
                (let encoding = (if has_encoding then PyUnicode_AsUTF8 pyo_encoding else ''utf-8'');
                     errors = (if has_errors then PyUnicode_AsUTF8 pyo_errors else ''strict'')
                 in case PyUnicode_Decode E raw encoding errors of
                      Inl err \<Rightarrow> Inr (Return_early None, set_error err s1)
                    | Inr r \<Rightarrow>
                        if PyErr_Occurred s1 then Inr (Return_early None, s1)
                        else Inr (Result_o r, s1))))"

text \<open>
  Lines 142 to 173: the body given to \<^verbatim>\<open>TRY_CATCH_ASPECT\<close>. Every path of the
  body ends in \<^verbatim>\<open>return result_o\<close>; the decoding branch first runs
  \<^verbatim>\<open>Py_DECREF(check_offset)\<close>, also where \<^verbatim>\<open>check_offset\<close> is null because the
  input could not be stringified.
\<close>

definition str_propagate :: "env \<Rightarrow> pyobject \<Rightarrow> pyobject \<Rightarrow> state \<Rightarrow> ending res" where
  "str_propagate E text result_o s =
     (if no_tainting_map s then Inr (Completed, s)
      else
        bind_res (get_ranges text s) (\<lambda>(ranges, ranges_error) s1.
          if ranges_error \<or> ranges = [] then Inr (Completed, s1)
          else if PyUnicode_Check text then
            bind_res (set_ranges result_o ranges s1) (\<lambda>_ s2. Inr (Completed, s2))
          else
            (let len_result_o = PyObject_Length result_o
             in case PyObject_Str E text of
                  Inl err \<Rightarrow>
                    bind_res (set_lengthupdated_ranges result_o len_result_o ranges
                                (PyErr_Clear (set_error err s1)))
                      (\<lambda>_ s2. Inr (Py_DECREF None s2))
                | Inr check_offset \<Rightarrow>
                    (let offset = PyUnicode_Find result_o check_offset
                     in bind_res
                          (if offset = - 1 then
                             set_lengthupdated_ranges result_o len_result_o ranges
                               (PyErr_Clear s1)
                           else
                             copy_and_shift_ranges_from_strings text result_o offset
                               len_result_o s1)
                          (\<lambda>_ s2. Inr (Py_DECREF (Some check_offset) s2))))))"

text \<open>
  Modelled from the spec: \<^verbatim>\<open>TRY_CATCH_ASPECT(NAME, RETURNRESULT, CLEANUP, body)\<close> is a
  macro of \<^verbatim>\<open>Helpers.h\<close>, which is not part of the sources. The spec: a propagation
  failure "must be caught at the aspect boundary, logged to the external diagnostic
  sink, and must not prevent returning the already-computed, correctly-valued result".
  The call in the source gives \<^verbatim>\<open>return result_o\<close> as the result of a caught failure
  and no cleanup; the body returns \<^verbatim>\<open>result_o\<close> itself. A dereference of the null
  pointer is not an exception: no clause of the macro catches it.
\<close>

definition TRY_CATCH_ASPECT ::
  "string \<Rightarrow> pyobject \<Rightarrow> ending res \<Rightarrow> (escape \<times> state) + (pyobject option \<times> state)" where
  "TRY_CATCH_ASPECT NAME result_o body =
     (case body of
        Inr (Completed, s) \<Rightarrow> Inr (Some result_o, s)
      | Inr (Null_dereference, s) \<Rightarrow> Inl (died, s)
      | Inl (e, s) \<Rightarrow>
          Inr (Some result_o,
               iast_taint_log_error
                 (case e of
                    unknown_exception \<Rightarrow> ''Unkown IAST propagation error in '' @ NAME @ ''. ''
                  | _ \<Rightarrow> ''IAST propagation error in '' @ NAME @ ''. '' @ what e) s))"

text \<open>
  \<^verbatim>\<open>has_encoding\<close> and \<^verbatim>\<open>has_errors\<close>: a non-null argument of positive length.
\<close>

definition has_argument :: "pyobject option \<Rightarrow> state \<Rightarrow> bool \<times> state" where
  "has_argument p s =
     (case p of
        None \<Rightarrow> (False, s)
      | Some obj \<Rightarrow> (let (n, s1) = PyUnicode_GetLength obj s in (n > 0, s1)))"

definition api_str_aspect ::
  "env \<Rightarrow> pyobject list \<Rightarrow> (string \<times> pyobject) list \<Rightarrow> state
     \<Rightarrow> (escape \<times> state) + (pyobject option \<times> state)" where
  "api_str_aspect E args kwargs s =
     (let nargs = length args in
      if nargs < 3 \<or> nargs > 5 then
        Inr (None, set_error (PyExc_ValueError (MSG_ERROR_N_PARAMS E)) s)
      else
        (let (effective_args, orig_function, text, pyo_encoding, pyo_errors) =
               get_args args kwargs
         in
         if effective_args > 3 then
           Inr (None,
                set_error
                  (PyExc_TypeError
                     (''str() takes at most 3 arguments ('' @ to_string effective_args
                        @ '' given)'')) s)
         else
           (let (has_encoding, s1) = has_argument pyo_encoding s;
                (has_errors, s2) = has_argument pyo_errors s1
            in
            if has_encoding \<and> \<not> PyByteArray_Check text \<and> \<not> PyBytes_Check text then
              Inr (call_original_function E orig_function text pyo_encoding pyo_errors s2)
            else if \<not> is_text text then
              (case PyObject_Str E text of
                 Inl err \<Rightarrow> Inr (None, set_error err s2)
               | Inr as_str \<Rightarrow> Inr (Some as_str, s2))
            else
              (case convert_text E text has_encoding has_errors pyo_encoding pyo_errors s2 of
                 Inl (e, s3) \<Rightarrow> Inl (uncaught e, s3)
               | Inr (Return_early r, s3) \<Rightarrow> Inr (r, s3)
               | Inr (Result_o result_o, s3) \<Rightarrow>
                   TRY_CATCH_ASPECT ''str_aspect'' result_o
                     (str_propagate E text result_o s3)))))"

section \<open>Reading the taint store\<close>

text \<open>The taint record of a value: the ranges of its map entry, by value.\<close>

definition ranges_of :: "state \<Rightarrow> pyobject \<Rightarrow> TaintRange list" where
  "ranges_of s obj =
     (case tx_map s of
        None \<Rightarrow> []
      | Some m \<Rightarrow>
          (case map_of m (obj_id obj) of
             None \<Rightarrow> []
           | Some t \<Rightarrow> map (taint_ranges s) (tainted_objects s t)))"

text \<open>The tainted object a value's map entry holds, and the range instances it holds.\<close>

definition tainted_object_of :: "state \<Rightarrow> nat \<Rightarrow> nat option" where
  "tainted_object_of s k = (case tx_map s of None \<Rightarrow> None | Some m \<Rightarrow> map_of m k)"

definition range_instances_of :: "state \<Rightarrow> nat \<Rightarrow> nat list" where
  "range_instances_of s k =
     (case tainted_object_of s k of None \<Rightarrow> [] | Some t \<Rightarrow> tainted_objects s t)"

text \<open>
  The allocators' invariant: every tainted object a map entry holds, and every range
  instance such an object holds, was allocated before the next free address.
\<close>

definition heap_wf :: "state \<Rightarrow> bool" where
  "heap_wf s =
     (case tx_map s of
        None \<Rightarrow> True
      | Some m \<Rightarrow>
          list_all (\<lambda>(k, t). t < next_to s \<and> list_all (\<lambda>r. r < next_range s) (tainted_objects s t)) m)"


section \<open>A reference for the built-in and a sample interpreter\<close>

text \<open>
  The un-instrumented operation of the str aspect is the built-in \<^verbatim>\<open>str(object,
  encoding, errors)\<close>. Its documented behaviour, in terms of the interpreter's own
  conversion and decoder: with neither encoding nor errors it is the plain
  stringification; with at least one of them the object must be bytes-like and is
  decoded (encoding defaults to utf-8, errors to strict); text and other values are
  refused with a \<^verbatim>\<open>TypeError\<close>.
\<close>

definition builtin_str ::
  "env \<Rightarrow> pyobject \<Rightarrow> pyobject option \<Rightarrow> pyobject option \<Rightarrow> pyerror + pyobject" where
  "builtin_str E obj encoding errors =
     (if encoding = None \<and> errors = None then PyObject_Str E obj
      else
        (case ob_val obj of
           PyBytes raw \<Rightarrow>
             PyUnicode_Decode E raw
               (if encoding = None then ''utf-8'' else PyUnicode_AsUTF8 encoding)
               (if errors = None then ''strict'' else PyUnicode_AsUTF8 errors)
         | PyByteArray raw \<Rightarrow>
             PyUnicode_Decode E raw
               (if encoding = None then ''utf-8'' else PyUnicode_AsUTF8 encoding)
               (if errors = None then ''strict'' else PyUnicode_AsUTF8 errors)
         | PyUnicode _ \<Rightarrow> Inl (PyExc_TypeError ''decoding str is not supported'')
         | PyLong _ \<Rightarrow>
             Inl (PyExc_TypeError
                    (''decoding to str: need a bytes-like object, '' @ tp_name obj @ '' found''))))"

text \<open>
  The built-in counts every argument it is given, positional or by keyword, and refuses
  more than three before it looks at any of them.
\<close>

definition builtin_str_arity_error :: "nat \<Rightarrow> nat \<Rightarrow> pyerror option" where
  "builtin_str_arity_error n_positional n_keyword =
     (if n_positional + n_keyword > 3
      then Some (PyExc_TypeError
                   (''str() takes at most 3 arguments ('' @ to_string (n_positional + n_keyword)
                      @ '' given)''))
      else None)"

text \<open>
  A small interpreter for concrete runs: addition of texts of one type (an empty operand
  of an immutable text gives the other operand itself, a byte array is always new),
  bytes plus byte array, and integers; in-place addition, which extends a byte array
  and returns it and is the addition otherwise; stringification; an ASCII decoder.
\<close>

definition new_object :: "pyvalue \<Rightarrow> pyobject" where
  "new_object v = \<lparr>obj_id = 1000, ob_val = v, interned = False\<rparr>"

definition demo_add :: "pyobject \<Rightarrow> pyobject \<Rightarrow> pyerror + pyobject" where
  "demo_add a b =
     (case ob_val a of
        PyUnicode x \<Rightarrow>
          (case ob_val b of
             PyUnicode y \<Rightarrow>
               Inr (if x = [] then b else if y = [] then a else new_object (PyUnicode (x @ y)))
           | _ \<Rightarrow> Inl (PyExc_TypeError ''can only concatenate str to str''))
      | PyBytes x \<Rightarrow>
          (case ob_val b of
             PyBytes y \<Rightarrow>
               Inr (if x = [] then b else if y = [] then a else new_object (PyBytes (x @ y)))
           | PyByteArray y \<Rightarrow> Inr (new_object (PyBytes (x @ y)))
           | _ \<Rightarrow> Inl (PyExc_TypeError ''can't concat to bytes''))
      | PyByteArray x \<Rightarrow>
          (case ob_val b of
             PyByteArray y \<Rightarrow> Inr (new_object (PyByteArray (x @ y)))
           | PyBytes y \<Rightarrow> Inr (new_object (PyByteArray (x @ y)))
           | _ \<Rightarrow> Inl (PyExc_TypeError ''can't concat to bytearray''))
      | PyLong x \<Rightarrow>
          (case ob_val b of
             PyLong y \<Rightarrow> Inr (new_object (PyLong (x + y)))
           | _ \<Rightarrow> Inl (PyExc_TypeError ''unsupported operand type(s) for +'')))"

definition demo_inplace_add :: "pyobject \<Rightarrow> pyobject \<Rightarrow> pyerror + pyobject" where
  "demo_inplace_add a b =
     (case ob_val a of
        PyByteArray x \<Rightarrow>
          (case ob_val b of
             PyByteArray y \<Rightarrow> Inr (a\<lparr>ob_val := PyByteArray (x @ y)\<rparr>)
           | PyBytes y \<Rightarrow> Inr (a\<lparr>ob_val := PyByteArray (x @ y)\<rparr>)
           | _ \<Rightarrow> Inl (PyExc_TypeError ''can't concat to bytearray''))
      | _ \<Rightarrow> demo_add a b)"

definition decoded_object :: "pyvalue \<Rightarrow> pyobject" where
  "decoded_object v = \<lparr>obj_id = 1001, ob_val = v, interned = False\<rparr>"

definition demo_str :: "pyobject \<Rightarrow> pyerror + pyobject" where
  "demo_str obj =
     (case ob_val obj of
        PyUnicode _ \<Rightarrow> Inr obj
      | PyBytes raw \<Rightarrow> Inr (new_object (PyUnicode (''b'' @ [CHR 0x27] @ raw @ [CHR 0x27])))
      | PyByteArray raw \<Rightarrow>
          Inr (new_object (PyUnicode (''bytearray(b'' @ [CHR 0x27] @ raw @ [CHR 0x27] @ '')'')))
      | PyLong n \<Rightarrow>
          Inr (new_object (PyUnicode ((if n < 0 then ''-'' else []) @ to_string (nat \<bar>n\<bar>)))))"

definition demo_decode :: "string \<Rightarrow> string \<Rightarrow> string \<Rightarrow> pyerror + pyobject" where
  "demo_decode raw encoding errors =
     (if encoding \<noteq> ''utf-8'' \<and> encoding \<noteq> ''ascii''
      then Inl (PyExc_LookupError (''unknown encoding: '' @ encoding))
      else if list_all (\<lambda>c. of_char c < (128 :: nat)) raw then Inr (decoded_object (PyUnicode raw))
      else if errors = ''ignore''
      then Inr (decoded_object (PyUnicode (filter (\<lambda>c. of_char c < (128 :: nat)) raw)))
      else Inl (PyExc_UnicodeDecodeError ''invalid start byte''))"

definition demo_interpreter :: env where
  "demo_interpreter =
     \<lparr>TAINT_RANGE_LIMIT = 2,
      MSG_ERROR_N_PARAMS = ''invalid number of params'',
      PyNumber_Add = demo_add,
      PyNumber_InPlaceAdd = demo_inplace_add,
      PyObject_Str = demo_str,
      PyObject_CallFunction = (\<lambda>f args. Inl (PyExc_TypeError ''not callable'')),
      PyUnicode_Decode = demo_decode\<rparr>"

text \<open>The sample interpreter with the built-in \<^verbatim>\<open>str\<close> as its one callable.\<close>

definition demo_env :: env where
  "demo_env =
     demo_interpreter
       \<lparr>PyObject_CallFunction :=
          (\<lambda>f args.
             case args of
               [Some obj, encoding, errors] \<Rightarrow> builtin_str demo_interpreter obj encoding errors
             | _ \<Rightarrow> Inl (PyExc_TypeError ''str() argument mismatch''))\<rparr>"

definition no_range :: TaintRange where
  "no_range = \<lparr>start = 0, rlength = 0, source = []\<rparr>"

text \<open>A state with a tainting map and nothing allocated.\<close>

definition demo_state :: state where
  "demo_state =
     \<lparr>tx_map = Some [],
      tainted_objects = (\<lambda>_. []),
      taint_ranges = (\<lambda>_. no_range),
      next_to = 0,
      next_range = 0,
      next_obj = 100,
      fasttainted = {},
      released = {},
      py_err = None,
      iast_log = [],
      fault_in = None\<rparr>"

text \<open>
  A state in which the value of identity 1 has one range, \<open>(0, 3, src1)\<close>, and the
  value of identity 2 has the ranges \<open>rs\<close>.
\<close>

definition two_tainted :: "TaintRange list \<Rightarrow> state" where
  "two_tainted rs =
     (let s0 = demo_state\<lparr>fasttainted := {1, 2}\<rparr>;
          (a, s1) = alloc_ranges [\<lparr>start = 0, rlength = 3, source = ''src1''\<rparr>] s0;
          (ta, s2) = alloc_tainted_object a s1;
          (b, s3) = alloc_ranges rs s2;
          (tb, s4) = alloc_tainted_object b s3
      in s4\<lparr>tx_map := Some [(1, ta), (2, tb)]\<rparr>)"

definition text_obj :: "nat \<Rightarrow> string \<Rightarrow> pyobject" where
  "text_obj i t = \<lparr>obj_id = i, ob_val = PyUnicode t, interned = False\<rparr>"

definition bytes_obj :: "nat \<Rightarrow> string \<Rightarrow> pyobject" where
  "bytes_obj i t = \<lparr>obj_id = i, ob_val = PyBytes t, interned = False\<rparr>"

definition bytearray_obj :: "nat \<Rightarrow> string \<Rightarrow> pyobject" where
  "bytearray_obj i t = \<lparr>obj_id = i, ob_val = PyByteArray t, interned = False\<rparr>"

definition long_obj :: "nat \<Rightarrow> int \<Rightarrow> pyobject" where
  "long_obj i n = \<lparr>obj_id = i, ob_val = PyLong n, interned = False\<rparr>"


section \<open>Basic facts about the helpers\<close>

declare to_string.simps [simp del]

lemmas demo_defs = demo_env_def demo_interpreter_def demo_state_def two_tainted_def
  text_obj_def bytes_obj_def bytearray_obj_def long_obj_def new_object_def no_range_def
  decoded_object_def alloc_tainted_object_def

lemmas helper_defs = get_tainted_object_def set_tainted_object_def new_pyobject_id_def
  allocate_tainted_object_copy_def add_ranges_shifted_def may_throw_def bind_res_def
  at_range_limit_def same_object_def get_pyobject_size_def shift_taint_range_def
  ranges_of_def tainted_object_of_def range_instances_of_def Py_DecRef_def

lemma may_throw_no_fault: "fault_in s = None \<Longrightarrow> may_throw s = Inr s"
  by (simp add: may_throw_def)

lemma get_tainted_object_no_fault:
  "fault_in s = None \<Longrightarrow> get_tainted_object obj s = Inr (tainted_object_of s (obj_id obj), s)"
  by (simp add: get_tainted_object_def tainted_object_of_def may_throw_no_fault)


lemma set_tainted_object_no_fault:
  "fault_in s = None \<Longrightarrow> tx_map s = Some m \<Longrightarrow>
     set_tainted_object (Some obj) (Some t) s =
       Inr ((), s\<lparr>tx_map := Some (AList.update (obj_id obj) t m),
                   fasttainted := (if PyUnicode_Check obj \<and> \<not> interned obj
                                   then insert (obj_id obj) (fasttainted s) else fasttainted s)\<rparr>)"
  by (simp add: set_tainted_object_def may_throw_no_fault)

lemma bind_res_Inr [simp]: "bind_res (Inr (a, s)) f = f a s"
  by (simp add: bind_res_def)

lemma bind_res_Inl [simp]: "bind_res (Inl x) f = Inl x"
  by (simp add: bind_res_def)

text \<open>The allocator of range instances.\<close>

lemma alloc_ranges_fst: "fst (alloc_ranges rs s) = [next_range s ..< next_range s + length rs]"
proof (induction rs arbitrary: s)
  case Nil
  then show ?case by simp
next
  case (Cons r rs)
  then show ?case
    by (simp add: Let_def split_beta upt_rec)
qed

lemma alloc_ranges_next: "next_range (snd (alloc_ranges rs s)) = next_range s + length rs"
  by (induction rs arbitrary: s) (simp_all add: Let_def split_beta)

lemma alloc_ranges_old:
  "a < next_range s \<Longrightarrow> taint_ranges (snd (alloc_ranges rs s)) a = taint_ranges s a"
  by (induction rs arbitrary: s) (simp_all add: Let_def split_beta)

lemma alloc_ranges_values:
  "map (taint_ranges (snd (alloc_ranges rs s))) (fst (alloc_ranges rs s)) = rs"
proof (induction rs arbitrary: s)
  case Nil
  then show ?case by simp
next
  case (Cons r rs)
  let ?s1 = "s\<lparr>taint_ranges := (taint_ranges s)(next_range s := r),
               next_range := Suc (next_range s)\<rparr>"
  have "taint_ranges (snd (alloc_ranges rs ?s1)) (next_range s) = taint_ranges ?s1 (next_range s)"
    by (rule alloc_ranges_old) simp
  with Cons show ?case
    by (simp add: Let_def split_beta)
qed

lemma alloc_ranges_frame:
  "tx_map (snd (alloc_ranges rs s)) = tx_map s"
  "tainted_objects (snd (alloc_ranges rs s)) = tainted_objects s"
  "next_to (snd (alloc_ranges rs s)) = next_to s"
  "next_obj (snd (alloc_ranges rs s)) = next_obj s"
  "fasttainted (snd (alloc_ranges rs s)) = fasttainted s"
  "released (snd (alloc_ranges rs s)) = released s"
  "py_err (snd (alloc_ranges rs s)) = py_err s"
  "iast_log (snd (alloc_ranges rs s)) = iast_log s"
  "fault_in (snd (alloc_ranges rs s)) = fault_in s"
  by (induction rs arbitrary: s) (simp_all add: Let_def split_beta)

text \<open>What a copy allocates: the tainted object at the next free address, holding new
  instances with the values of the original's ranges.\<close>

lemma allocate_tainted_object_copy_no_fault:
  fixes orig :: "nat option"
  assumes "fault_in s = None"
  defines "vals \<equiv> (case orig of None \<Rightarrow> [] | Some t \<Rightarrow> map (taint_ranges s) (tainted_objects s t))"
  shows "\<exists>s'. allocate_tainted_object_copy orig s = Inr (next_to s, s')
           \<and> tx_map s' = tx_map s \<and> fault_in s' = None
           \<and> next_to s' = Suc (next_to s)
           \<and> next_range s' = next_range s + length vals
           \<and> tainted_objects s' =
               (tainted_objects s)(next_to s := [next_range s ..< next_range s + length vals])
           \<and> (\<forall>a. a < next_range s \<longrightarrow> taint_ranges s' a = taint_ranges s a)
           \<and> map (taint_ranges s') [next_range s ..< next_range s + length vals] = vals"
proof -
  let ?s2 = "snd (alloc_ranges vals s)"
  let ?s' = "?s2\<lparr>tainted_objects := (tainted_objects ?s2)(next_to ?s2 := fst (alloc_ranges vals s)),
                 next_to := Suc (next_to ?s2)\<rparr>"
  have run: "allocate_tainted_object_copy orig s = Inr (next_to s, ?s')"
    using assms(1)
    by (simp add: allocate_tainted_object_copy_def may_throw_no_fault vals_def Let_def
        split_beta alloc_tainted_object_def alloc_ranges_frame)
  have vals: "map (taint_ranges ?s') [next_range s ..< next_range s + length vals] = vals"
    using alloc_ranges_values [of vals s] by (simp add: alloc_ranges_fst)
  show ?thesis
    using assms(1) vals
    by (intro exI [of _ ?s'])
       (simp add: run alloc_ranges_frame alloc_ranges_next alloc_ranges_old alloc_ranges_fst)
qed

lemma add_ranges_shifted_no_fault:
  fixes E :: env and this other :: nat and offset :: int
  assumes "fault_in s = None"
  defines "kept \<equiv> take (TAINT_RANGE_LIMIT E - length (tainted_objects s this))
                    (map (shift_taint_range offset)
                       (map (taint_ranges s) (tainted_objects s other)))"
  shows "\<exists>s'. add_ranges_shifted E this (Some other) offset s = Inr ((), s')
           \<and> tx_map s' = tx_map s \<and> fault_in s' = None
           \<and> tainted_objects s' =
               (tainted_objects s)
                 (this := tainted_objects s this @ [next_range s ..< next_range s + length kept])
           \<and> (\<forall>a. a < next_range s \<longrightarrow> taint_ranges s' a = taint_ranges s a)
           \<and> map (taint_ranges s') [next_range s ..< next_range s + length kept] = kept"
proof -
  let ?s2 = "snd (alloc_ranges kept s)"
  let ?s' = "?s2\<lparr>tainted_objects :=
                   (tainted_objects ?s2)(this := tainted_objects s this @ fst (alloc_ranges kept s))\<rparr>"
  have run: "add_ranges_shifted E this (Some other) offset s = Inr ((), ?s')"
    using assms(1)
    by (simp add: add_ranges_shifted_def may_throw_no_fault kept_def Let_def split_beta)
  have vals: "map (taint_ranges ?s') [next_range s ..< next_range s + length kept] = kept"
    using alloc_ranges_values [of kept s] by (simp add: alloc_ranges_fst)
  show ?thesis
    using assms(1) vals
    by (intro exI [of _ ?s'])
       (simp add: run alloc_ranges_frame alloc_ranges_old alloc_ranges_fst)
qed

text \<open>Past the two empty-operand exits, \<^verbatim>\<open>add_aspect\<close> is its propagation part.\<close>

lemma add_aspect_no_fast_path:
  assumes "\<not> (get_pyobject_size text_to_add = 0 \<and> get_pyobject_size candidate_text > 0)"
    and "\<not> (get_pyobject_size text_to_add > 0 \<and> get_pyobject_size candidate_text = 0
             \<and> same_object text_to_add result_o)"
  shows "add_aspect E result_o candidate_text text_to_add s =
        bind_res (get_tainted_object candidate_text s) (\<lambda>to_candidate_text s1.
          if at_range_limit E s1 to_candidate_text then
            bind_res (new_pyobject_id result_o s1) (\<lambda>res_new_id s2.
            bind_res (set_tainted_object res_new_id to_candidate_text
                        (Py_DecRef result_o s2)) (\<lambda>_ s3.
            Inr (res_new_id, s3)))
          else
            bind_res (get_tainted_object text_to_add s1) (\<lambda>to_text_to_add s2.
              if to_candidate_text = None \<and> to_text_to_add = None then Inr (result_o, s2)
              else if to_text_to_add = None then
                bind_res (new_pyobject_id result_o s2) (\<lambda>res_new_id s3.
                bind_res (set_tainted_object res_new_id to_candidate_text
                            (Py_DecRef result_o s3)) (\<lambda>_ s4.
                Inr (res_new_id, s4)))
              else
                bind_res (allocate_tainted_object_copy to_candidate_text s2) (\<lambda>tainted s3.
                bind_res (add_ranges_shifted E tainted to_text_to_add
                            (int (get_pyobject_size candidate_text)) s3) (\<lambda>_ s4.
                bind_res (set_tainted_object result_o (Some tainted) s4) (\<lambda>_ s5.
                Inr (result_o, s5))))))"
  unfolding add_aspect_def Let_def using assms by (simp only: if_False)

lemma heap_wfD:
  assumes "heap_wf s" and "tx_map s = Some m" and "map_of m k = Some t"
  shows "t < next_to s" and "\<forall>a \<in> set (tainted_objects s t). a < next_range s"
proof -
  have "(k, t) \<in> set m"
    using assms(3) by (rule map_of_SomeD)
  with assms(1,2) show "t < next_to s" and "\<forall>a \<in> set (tainted_objects s t). a < next_range s"
    by (auto simp: heap_wf_def list_all_iff)
qed

text \<open>
  The last branch of \<^verbatim>\<open>add_aspect\<close> (the right operand has a map entry, the left one is
  below the cap, no empty-operand exit): the result's entry is the tainted object at the
  next free address, its ranges are new instances with the values of the left operand's
  ranges followed by the right operand's ranges shifted, as far as the cap allows.
\<close>

lemma add_aspect_right_tainted:
  fixes E :: env and candidate_text text_to_add result :: pyobject
  assumes m: "tx_map s = Some m" and nf: "fault_in s = None" and wf: "heap_wf s"
    and ta: "map_of m (obj_id text_to_add) = Some ta"
    and lim: "\<not> at_range_limit E s (map_of m (obj_id candidate_text))"
    and f1: "\<not> (get_pyobject_size text_to_add = 0 \<and> get_pyobject_size candidate_text > 0)"
    and f2: "\<not> (get_pyobject_size text_to_add > 0 \<and> get_pyobject_size candidate_text = 0
                \<and> same_object text_to_add (Some result))"
  defines "new \<equiv> ranges_of s candidate_text
                    @ take (TAINT_RANGE_LIMIT E - length (ranges_of s candidate_text))
                        (map (shift_taint_range (int (get_pyobject_size candidate_text)))
                           (ranges_of s text_to_add))"
  shows "\<exists>s'. add_aspect E (Some result) candidate_text text_to_add s = Inr (Some result, s')
           \<and> tx_map s' = Some (AList.update (obj_id result) (next_to s) m)
           \<and> tainted_objects s' =
               (tainted_objects s)(next_to s := [next_range s ..< next_range s + length new])
           \<and> (\<forall>a. a < next_range s \<longrightarrow> taint_ranges s' a = taint_ranges s a)
           \<and> map (taint_ranges s') [next_range s ..< next_range s + length new] = new"
proof -
  let ?L = "ranges_of s candidate_text"
  let ?R = "ranges_of s text_to_add"
  let ?off = "int (get_pyobject_size candidate_text)"
  let ?kept = "take (TAINT_RANGE_LIMIT E - length ?L) (map (shift_taint_range ?off) ?R)"
  let ?nr = "next_range s"
  have L: "?L = (case map_of m (obj_id candidate_text) of
                   None \<Rightarrow> [] | Some t \<Rightarrow> map (taint_ranges s) (tainted_objects s t))"
    using m by (simp add: ranges_of_def)
  have R: "?R = map (taint_ranges s) (tainted_objects s ta)"
    using m ta by (simp add: ranges_of_def)
  have ta_old: "ta < next_to s" and ta_ranges: "\<forall>a \<in> set (tainted_objects s ta). a < ?nr"
    using heap_wfD [OF wf m ta] by simp_all
  obtain s3 where
    s3: "allocate_tainted_object_copy (map_of m (obj_id candidate_text)) s = Inr (next_to s, s3)"
    and s3_map: "tx_map s3 = tx_map s" and s3_nf: "fault_in s3 = None"
    and s3_nr: "next_range s3 = ?nr + length ?L"
    and s3_to: "tainted_objects s3 = (tainted_objects s)(next_to s := [?nr ..< ?nr + length ?L])"
    and s3_old: "\<forall>a. a < ?nr \<longrightarrow> taint_ranges s3 a = taint_ranges s a"
    and s3_vals: "map (taint_ranges s3) [?nr ..< ?nr + length ?L] = ?L"
    using allocate_tainted_object_copy_no_fault [OF nf, of "map_of m (obj_id candidate_text)"]
    unfolding L [symmetric] by blast
  have own: "tainted_objects s3 (next_to s) = [?nr ..< ?nr + length ?L]"
    by (simp add: s3_to)
  have theirs: "tainted_objects s3 ta = tainted_objects s ta"
    using ta_old by (simp add: s3_to)
  have theirs_vals: "map (taint_ranges s3) (tainted_objects s ta) = ?R"
    unfolding R using ta_ranges s3_old by simp
  obtain s4 where
    s4: "add_ranges_shifted E (next_to s) (Some ta) ?off s3 = Inr ((), s4)"
    and s4_map: "tx_map s4 = tx_map s3" and s4_nf: "fault_in s4 = None"
    and s4_to: "tainted_objects s4 =
                  (tainted_objects s3)
                    (next_to s := tainted_objects s3 (next_to s)
                                    @ [next_range s3 ..< next_range s3 + length ?kept])"
    and s4_old: "\<forall>a. a < next_range s3 \<longrightarrow> taint_ranges s4 a = taint_ranges s3 a"
    and s4_vals: "map (taint_ranges s4) [next_range s3 ..< next_range s3 + length ?kept] = ?kept"
    using add_ranges_shifted_no_fault
            [OF s3_nf, where E = E and this = "next_to s" and other = ta and offset = ?off]
    unfolding own theirs theirs_vals by auto
  let ?s5 = "s4\<lparr>tx_map := Some (AList.update (obj_id result) (next_to s) m),
                fasttainted := (if PyUnicode_Check result \<and> \<not> interned result
                                then insert (obj_id result) (fasttainted s4)
                                else fasttainted s4)\<rparr>"
  have s5: "set_tainted_object (Some result) (Some (next_to s)) s4 = Inr ((), ?s5)"
    using s4_nf s4_map s3_map m by (simp add: set_tainted_object_no_fault)
  have lookups: "get_tainted_object candidate_text s = Inr (map_of m (obj_id candidate_text), s)"
     "get_tainted_object text_to_add s = Inr (Some ta, s)"
    using m nf ta by (simp_all add: get_tainted_object_no_fault tainted_object_of_def)
  have run: "add_aspect E (Some result) candidate_text text_to_add s = Inr (Some result, ?s5)"
    unfolding add_aspect_no_fast_path [OF f1 f2]
    using lim by (simp add: lookups s3 s4 s5)
  have len: "length new = length ?L + length ?kept"
    by (simp add: new_def)
  have "[?nr ..< ?nr + length ?L + length ?kept] =
          [?nr ..< ?nr + length ?L] @ [?nr + length ?L ..< ?nr + length ?L + length ?kept]"
    by (rule upt_add_eq_append) simp
  then have split: "[?nr ..< ?nr + length new] =
                 [?nr ..< ?nr + length ?L] @ [?nr + length ?L ..< ?nr + length ?L + length ?kept]"
    unfolding len by (simp only: add.assoc)
  have to5: "tainted_objects ?s5 =
               (tainted_objects s)(next_to s := [?nr ..< ?nr + length new])"
    unfolding split by (simp add: s4_to s3_to s3_nr)
  have old5: "\<forall>a. a < ?nr \<longrightarrow> taint_ranges ?s5 a = taint_ranges s a"
    using s4_old s3_old s3_nr by simp
  have "map (taint_ranges s4) [?nr ..< ?nr + length ?L]
          = map (taint_ranges s3) [?nr ..< ?nr + length ?L]"
    using s4_old s3_nr by (intro map_cong refl) simp
  then have "map (taint_ranges s4) [?nr ..< ?nr + length ?L] = ?L"
    using s3_vals by simp
  then have vals5: "map (taint_ranges ?s5) [?nr ..< ?nr + length new] = new"
    unfolding split using s4_vals s3_nr by (simp add: new_def)
  show ?thesis
    using run to5 old5 vals5 by (intro exI [of _ ?s5]) simp
qed

section \<open>The add aspect: empty operands\<close>







section \<open>The add aspect: a left operand at the range cap\<close>



section \<open>The add aspect: operands that are not texts of one type\<close>

text \<open>
  Claim C10. The entry points \<^verbatim>\<open>api_add_aspect\<close> and \<^verbatim>\<open>api_add_inplace_aspect\<close>
  propagate only for two text-like operands of one type of which at least one may be
  tainted: when the operands are not both text-like of one type (or both are texts that
  are not interned and carry no taint mark), the call returns what the real addition
  returned, sets nothing but the addition's own error, and leaves the tainting map as
  it was, also when an operand has taint ranges.
\<close>

theorem api_add_aspect_skips_unrelated_operands:
  assumes "\<not> args_are_text_and_same_type candidate_text text_to_add
           \<or> (is_notinterned_notfasttainted_unicode s candidate_text
               \<and> is_notinterned_notfasttainted_unicode s text_to_add)"
  shows "api_add_aspect E [candidate_text, text_to_add] s =
           (case PyNumber_Add E candidate_text text_to_add of
              Inl err \<Rightarrow> (None, set_error err s)
            | Inr r \<Rightarrow> (Some r, s))
         \<and> api_add_inplace_aspect E [candidate_text, text_to_add] s =
           (case PyNumber_InPlaceAdd E candidate_text text_to_add of
              Inl err \<Rightarrow> (None, set_error err s)
            | Inr r \<Rightarrow> (Some r, s))
         \<and> tx_map (snd (api_add_aspect E [candidate_text, text_to_add] s)) = tx_map s
         \<and> tx_map (snd (api_add_inplace_aspect E [candidate_text, text_to_add] s)) = tx_map s"
proof -
  have nn: "is_notinterned_notfasttainted_unicode (set_error err s) obj
              = is_notinterned_notfasttainted_unicode s obj" for err obj
    by (simp add: is_notinterned_notfasttainted_unicode_def set_error_def)
  have a: "api_add_aspect E [candidate_text, text_to_add] s =
           (case PyNumber_Add E candidate_text text_to_add of
              Inl err \<Rightarrow> (None, set_error err s)
            | Inr r \<Rightarrow> (Some r, s))"
    using assms by (auto simp: api_add_aspect_def nn split: sum.splits)
  have b: "api_add_inplace_aspect E [candidate_text, text_to_add] s =
           (case PyNumber_InPlaceAdd E candidate_text text_to_add of
              Inl err \<Rightarrow> (None, set_error err s)
            | Inr r \<Rightarrow> (Some r, s))"
    using assms by (auto simp: api_add_inplace_aspect_def nn split: sum.splits)
  show ?thesis
    unfolding a b by (simp add: set_error_def split: sum.splits)
qed


theorem api_add_aspect_skips_unrelated_operands_witness:
  "\<not> args_are_text_and_same_type (bytes_obj 1 ''abc'') (bytearray_obj 2 ''de'')
   \<and> ranges_of (two_tainted []) (bytes_obj 1 ''abc'') = [\<lparr>start = 0, rlength = 3, source = ''src1''\<rparr>]
   \<and> api_add_aspect demo_env [bytes_obj 1 ''abc'', bytearray_obj 2 ''de''] (two_tainted [])
       = (Some (new_object (PyBytes ''abcde'')), two_tainted [])
   \<and> api_add_inplace_aspect demo_env [bytes_obj 1 ''abc'', bytearray_obj 2 ''de''] (two_tainted [])
       = (Some (new_object (PyBytes ''abcde'')), two_tainted [])
   \<and> tx_map (snd (api_add_aspect demo_env [bytes_obj 1 ''abc'', bytearray_obj 2 ''de''] (two_tainted [])))
       = tx_map (two_tainted [])"
proof -
  have h: "\<not> args_are_text_and_same_type (bytes_obj 1 ''abc'') (bytearray_obj 2 ''de'')
      \<or> (is_notinterned_notfasttainted_unicode (two_tainted []) (bytes_obj 1 ''abc'')
          \<and> is_notinterned_notfasttainted_unicode (two_tainted []) (bytearray_obj 2 ''de''))"
    by (simp add: args_are_text_and_same_type_def PyObject_Type_def bytes_obj_def bytearray_obj_def)
  have r: "ranges_of (two_tainted []) (bytes_obj 1 ''abc'') = [\<lparr>start = 0, rlength = 3, source = ''src1''\<rparr>]"
    by (simp add: helper_defs demo_defs Let_def)
  have add: "PyNumber_Add demo_env (bytes_obj 1 ''abc'') (bytearray_obj 2 ''de'') = Inr (new_object (PyBytes ''abcde''))"
    "PyNumber_InPlaceAdd demo_env (bytes_obj 1 ''abc'') (bytearray_obj 2 ''de'') = Inr (new_object (PyBytes ''abcde''))"
    by (simp_all add: demo_env_def demo_interpreter_def demo_add_def demo_inplace_add_def
        bytes_obj_def bytearray_obj_def)
  have n: "\<not> args_are_text_and_same_type (bytes_obj 1 ''abc'') (bytearray_obj 2 ''de'')"
    by (simp add: args_are_text_and_same_type_def PyObject_Type_def bytes_obj_def bytearray_obj_def)
  show ?thesis
    using n r add api_add_aspect_skips_unrelated_operands [OF h, of demo_env]
    by simp
qed

section \<open>The add aspect: a tainted right operand\<close>

text \<open>
  Claim C1 at a failing input. The claim has the right operand's ranges shifted by the
  left operand's length. For the byte arrays \<open>a = abc\<close> with ranges \<open>[(0,3,src1)]\<close> and
  \<open>b = de\<close> with ranges \<open>[(0,2,src2)]\<close>, \<^verbatim>\<open>a + b\<close> through \<^verbatim>\<open>api_add_aspect\<close> gives
  \<open>[(0,3,src1), (3,2,src2)]\<close>, as claimed. \<^verbatim>\<open>a += b\<close> through
  \<^verbatim>\<open>api_add_inplace_aspect\<close> extends \<open>a\<close> before \<^verbatim>\<open>add_aspect\<close> measures it, so the
  shift is the length of the result, 5: the result \<open>abcde\<close> gets
  \<open>[(0,3,src1), (5,2,src2)]\<close>, a range that lies outside it.
\<close>

theorem inplace_add_shifts_by_the_length_of_the_result:
  "(case api_add_aspect demo_env [bytearray_obj 1 ''abc'', bytearray_obj 2 ''de'']
          (two_tainted [\<lparr>start = 0, rlength = 2, source = ''src2''\<rparr>]) of
      (Some r, s') \<Rightarrow>
        ob_val r = PyByteArray ''abcde''
        \<and> ranges_of s' r =
            [\<lparr>start = 0, rlength = 3, source = ''src1''\<rparr>, \<lparr>start = 3, rlength = 2, source = ''src2''\<rparr>]
    | _ \<Rightarrow> False)
   \<and> (case api_add_inplace_aspect demo_env [bytearray_obj 1 ''abc'', bytearray_obj 2 ''de'']
          (two_tainted [\<lparr>start = 0, rlength = 2, source = ''src2''\<rparr>]) of
      (Some r, s') \<Rightarrow>
        obj_id r = 1 \<and> ob_val r = PyByteArray ''abcde''
        \<and> ranges_of s' r =
            [\<lparr>start = 0, rlength = 3, source = ''src1''\<rparr>, \<lparr>start = 5, rlength = 2, source = ''src2''\<rparr>]
    | _ \<Rightarrow> False)"
  by (simp add: api_add_aspect_def api_add_inplace_aspect_def reread_def no_tainting_map_def
      args_are_text_and_same_type_def is_text_def PyUnicode_Check_def PyBytes_Check_def
      PyByteArray_Check_def PyObject_Type_def is_notinterned_notfasttainted_unicode_def
      demo_add_def demo_inplace_add_def add_aspect_def helper_defs demo_defs Let_def)

section \<open>The add aspect: which range instances a result holds\<close>

text \<open>
  Claim C9, as amended. In the branch of \<^verbatim>\<open>add_aspect\<close> that builds a new tainted
  object (the right operand has a map entry, the left one is below the cap, no
  empty-operand exit), the ranges carried into the result's record are new instances:
  no other map entry holds the result's tainted object, no range instance of the result
  is held by the tainted object of another entry, and each new range has the source of
  the range it was copied from. (In the two branches that hand the left operand's
  tainted object to the result, the two entries share it.)
\<close>

theorem add_aspect_copies_are_new_instances:
  assumes "tx_map s = Some m" and "fault_in s = None" and "heap_wf s"
    and "map_of m (obj_id text_to_add) = Some ta"
    and "\<not> at_range_limit E s (map_of m (obj_id candidate_text))"
    and "\<not> (get_pyobject_size text_to_add = 0 \<and> get_pyobject_size candidate_text > 0)"
    and "\<not> (get_pyobject_size text_to_add > 0 \<and> get_pyobject_size candidate_text = 0
             \<and> same_object text_to_add (Some result))"
    and "k \<noteq> obj_id result"
  shows "\<exists>s'. add_aspect E (Some result) candidate_text text_to_add s = Inr (Some result, s')
           \<and> tainted_object_of s' (obj_id result) \<noteq> None
           \<and> tainted_object_of s' k \<noteq> tainted_object_of s' (obj_id result)
           \<and> set (range_instances_of s' k) \<inter> set (range_instances_of s' (obj_id result)) = {}
           \<and> map source (ranges_of s' result) =
               map source (take (TAINT_RANGE_LIMIT E)
                             (ranges_of s candidate_text @ ranges_of s text_to_add))"
proof -
  let ?L = "ranges_of s candidate_text"
  let ?S = "map (shift_taint_range (int (get_pyobject_size candidate_text)))
              (ranges_of s text_to_add)"
  let ?new = "?L @ take (TAINT_RANGE_LIMIT E - length ?L) ?S"
  let ?ids = "[next_range s ..< next_range s + length ?new]"
  obtain s' where run: "add_aspect E (Some result) candidate_text text_to_add s
                          = Inr (Some result, s')"
    and map': "tx_map s' = Some (AList.update (obj_id result) (next_to s) m)"
    and to': "tainted_objects s' = (tainted_objects s)(next_to s := ?ids)"
    and vals': "map (taint_ranges s') ?ids = ?new"
    using add_aspect_right_tainted [OF assms(1-7)] by blast
  have res: "tainted_object_of s' (obj_id result) = Some (next_to s)"
    by (simp add: tainted_object_of_def map' update_conv')
  have other: "tainted_object_of s' k = map_of m k"
    using assms(8) by (simp add: tainted_object_of_def map' update_conv')
  have res_inst: "range_instances_of s' (obj_id result) = ?ids"
    by (simp add: range_instances_of_def res to')
  have distinct_objects: "tainted_object_of s' k \<noteq> tainted_object_of s' (obj_id result)"
  proof (cases "map_of m k")
    case None
    then show ?thesis by (simp add: other res)
  next
    case (Some t)
    then have "t < next_to s"
      using heap_wfD(1) [OF assms(3) assms(1)] by simp
    then show ?thesis by (simp add: other res Some)
  qed
  have disjoint: "set (range_instances_of s' k) \<inter> set (range_instances_of s' (obj_id result)) = {}"
  proof (cases "map_of m k")
    case None
    then show ?thesis by (simp add: range_instances_of_def other)
  next
    case (Some t)
    then have "t < next_to s" and old: "\<forall>a \<in> set (tainted_objects s t). a < next_range s"
      using heap_wfD [OF assms(3) assms(1)] by simp_all
    then have "range_instances_of s' k = tainted_objects s t"
      by (simp add: range_instances_of_def other Some to')
    with old show ?thesis
      unfolding res_inst by auto
  qed
  have "length ?L \<le> TAINT_RANGE_LIMIT E"
    using assms(1,5) by (simp add: ranges_of_def at_range_limit_def split: option.splits)
  then have cut: "take (TAINT_RANGE_LIMIT E) (?L @ ranges_of s text_to_add)
                    = ?L @ take (TAINT_RANGE_LIMIT E - length ?L) (ranges_of s text_to_add)"
    by simp
  have "ranges_of s' result = ?new"
    using vals' by (simp add: ranges_of_def map' update_conv' to')
  then have "map source (ranges_of s' result) =
               map source (take (TAINT_RANGE_LIMIT E) (?L @ ranges_of s text_to_add))"
    unfolding cut by (simp add: take_map shift_taint_range_def comp_def)
  with run res distinct_objects disjoint show ?thesis
    by simp
qed

theorem add_aspect_copies_are_new_instances_witness:
  "\<exists>s'. add_aspect demo_env (Some (text_obj 3 ''abcde'')) (text_obj 1 ''abc'') (text_obj 2 ''de'')
            (two_tainted [\<lparr>start = 0, rlength = 2, source = ''src2''\<rparr>])
          = Inr (Some (text_obj 3 ''abcde''), s')
        \<and> tainted_object_of s' 3 \<noteq> None
        \<and> tainted_object_of s' 1 \<noteq> tainted_object_of s' 3
        \<and> set (range_instances_of s' 1) \<inter> set (range_instances_of s' 3) = {}
        \<and> map source (ranges_of s' (text_obj 3 ''abcde'')) = [''src1'', ''src2'']"
proof -
  let ?s = "two_tainted [\<lparr>start = 0, rlength = 2, source = ''src2''\<rparr>]"
  have 1: "tx_map ?s = Some [(1, 0), (2, 1)]" by (simp add: demo_defs Let_def)
  have 2: "fault_in ?s = None" by (simp add: demo_defs Let_def)
  have 3: "heap_wf ?s" by (simp add: heap_wf_def demo_defs Let_def)
  have 4: "map_of [(1, 0), (2, 1)] (obj_id (text_obj 2 ''de'')) = Some (1::nat)"
    by (simp add: text_obj_def)
  have 5: "\<not> at_range_limit demo_env ?s (map_of [(1, 0), (2, 1)] (obj_id (text_obj 1 ''abc'')))"
    by (simp add: at_range_limit_def demo_defs Let_def)
  have 6: "\<not> (get_pyobject_size (text_obj 2 ''de'') = 0 \<and> get_pyobject_size (text_obj 1 ''abc'') > 0)"
    by (simp add: get_pyobject_size_def text_obj_def)
  have 7: "\<not> (get_pyobject_size (text_obj 2 ''de'') > 0 \<and> get_pyobject_size (text_obj 1 ''abc'') = 0
             \<and> same_object (text_obj 2 ''de'') (Some (text_obj 3 ''abcde'')))"
    by (simp add: get_pyobject_size_def text_obj_def)
  have 8: "(1::nat) \<noteq> obj_id (text_obj 3 ''abcde'')"
    by (simp add: text_obj_def)
  have 9: "map source (take (TAINT_RANGE_LIMIT demo_env)
             (ranges_of ?s (text_obj 1 ''abc'') @ ranges_of ?s (text_obj 2 ''de'')))
           = [''src1'', ''src2'']"
    by (simp add: helper_defs demo_defs Let_def)
  have 10: "obj_id (text_obj 3 ''abcde'') = 3"
    by (simp add: text_obj_def)
  show ?thesis
    using add_aspect_copies_are_new_instances [OF 1 2 3 4 5 6 7 8] unfolding 9 10 .
qed

text \<open>
  The claim as stated fails where only the left operand is tainted (and likewise at the
  cap): \<^verbatim>\<open>set_tainted_object(res_new_id, to_candidate_text, ...)\<close> gives the result's
  entry the left operand's own tainted object, so the two distinct map entries hold the
  same range instances.
\<close>

theorem add_aspect_left_only_shares_instances:
  "(case add_aspect demo_env (Some (text_obj 3 ''abcde'')) (text_obj 1 ''abc'') (text_obj 2 ''de'')
          ((two_tainted [])\<lparr>tx_map := Some [(1, 0)]\<rparr>) of
      Inr (Some r, s') \<Rightarrow>
        obj_id r \<noteq> obj_id (text_obj 1 ''abc'')
        \<and> tainted_object_of s' (obj_id r) = tainted_object_of s' (obj_id (text_obj 1 ''abc''))
        \<and> range_instances_of s' (obj_id r) = [0]
        \<and> range_instances_of s' (obj_id (text_obj 1 ''abc'')) = [0]
    | _ \<Rightarrow> False)"
  by (simp add: add_aspect_def helper_defs demo_defs Let_def)

section \<open>The str aspect: propagation\<close>

lemma get_ranges_no_fault:
  "fault_in s = None \<Longrightarrow> is_text obj \<Longrightarrow>
     get_ranges obj s = Inr ((range_instances_of s (obj_id obj), False), s)"
  by (simp add: get_ranges_def may_throw_no_fault range_instances_of_def tainted_object_of_def
      split: option.splits)

lemma ranges_of_instances:
  "ranges_of s obj = map (taint_ranges s) (range_instances_of s (obj_id obj))"
  by (simp add: ranges_of_def range_instances_of_def tainted_object_of_def split: option.splits)

lemma tainted_has_map:
  assumes "ranges_of s obj \<noteq> []"
  shows "\<exists>m. tx_map s = Some m \<and> m \<noteq> []"
  using assms by (auto simp: ranges_of_def split: option.splits)

text \<open>What \<^verbatim>\<open>set_ranges\<close> leaves as the value's record: the values the references had.\<close>

lemma set_ranges_no_fault:
  assumes "fault_in s = None" and "tx_map s = Some m"
  shows "\<exists>s'. set_ranges obj ranges s = Inr ((), s')
           \<and> ranges_of s' obj = map (taint_ranges s) ranges"
proof -
  let ?vals = "map (taint_ranges s) ranges"
  let ?s2 = "snd (alloc_ranges ?vals s)"
  let ?ids = "fst (alloc_ranges ?vals s)"
  let ?s3 = "?s2\<lparr>tainted_objects := (tainted_objects ?s2)(next_to ?s2 := ?ids),
                 next_to := Suc (next_to ?s2)\<rparr>"
  let ?s' = "?s3\<lparr>tx_map := Some (AList.update (obj_id obj) (next_to ?s2) m),
                 fasttainted := (if PyUnicode_Check obj \<and> \<not> interned obj
                                 then insert (obj_id obj) (fasttainted ?s3)
                                 else fasttainted ?s3)\<rparr>"
  have run: "set_ranges obj ranges s = Inr ((), ?s')"
    using assms
    by (simp add: set_ranges_def may_throw_no_fault Let_def split_beta alloc_tainted_object_def)
  have "ranges_of ?s' obj = map (taint_ranges ?s2) ?ids"
    by (simp add: ranges_of_def update_conv')
  then have "ranges_of ?s' obj = ?vals"
    by (simp only: alloc_ranges_values)
  with run show ?thesis
    by blast
qed

lemma get_args_kw_other_names:
  assumes "\<forall>kv \<in> set kwargs. fst kv \<noteq> ''encoding'' \<and> fst kv \<noteq> ''errors''"
  shows "get_args_kw kwargs n pyo_encoding pyo_errors = (n, pyo_encoding, pyo_errors)"
  using assms by (induction kwargs) auto

text \<open>
  Claim C6. For a tainted text converted by the str aspect with no encoding and no
  errors argument (three positional arguments: the original function, the flag and the
  value; no keyword of either name), the conversion's result is returned and its taint
  ranges are the input's ranges, with the same starts, lengths and sources.
\<close>

theorem str_aspect_text_keeps_ranges:
  assumes "PyUnicode_Check text" and "fault_in s = None" and "ranges_of s text \<noteq> []"
    and "PyObject_Str E text = Inr result_o"
    and "\<forall>kv \<in> set kwargs. fst kv \<noteq> ''encoding'' \<and> fst kv \<noteq> ''errors''"
  shows "\<exists>s'. api_str_aspect E [orig_function, flag, text] kwargs s = Inr (Some result_o, s')
           \<and> ranges_of s' result_o = ranges_of s text"
proof -
  obtain m where m: "tx_map s = Some m" "m \<noteq> []"
    using tainted_has_map [OF assms(3)] by blast
  have textual: "is_text text"
    using assms(1) by (simp add: is_text_def)
  have args: "get_args [orig_function, flag, text] kwargs = (1, orig_function, text, None, None)"
    by (simp add: get_args_def get_args_kw_other_names [OF assms(5)])
  have conv: "convert_text E text False False None None s = Inr (Result_o result_o, s)"
    by (simp add: convert_text_def assms(4))
  have inst: "range_instances_of s (obj_id text) \<noteq> []"
    using assms(3) by (simp add: ranges_of_instances)
  obtain s' where stored: "set_ranges result_o (range_instances_of s (obj_id text)) s = Inr ((), s')"
    and rec: "ranges_of s' result_o = map (taint_ranges s) (range_instances_of s (obj_id text))"
    using set_ranges_no_fault [OF assms(2) m(1)] by blast
  have propagated: "str_propagate E text result_o s = Inr (Completed, s')"
    using m inst assms(1)
    by (simp add: str_propagate_def no_tainting_map_def get_ranges_no_fault [OF assms(2) textual] stored)
  have "api_str_aspect E [orig_function, flag, text] kwargs s = Inr (Some result_o, s')"
    using assms(1) textual
    by (simp add: api_str_aspect_def args has_argument_def conv propagated TRY_CATCH_ASPECT_def)
  then show ?thesis
    using rec by (simp add: ranges_of_instances [of s "text"])
qed

theorem str_aspect_text_keeps_ranges_witness:
  "ranges_of (two_tainted []) (text_obj 1 ''abc'') = [\<lparr>start = 0, rlength = 3, source = ''src1''\<rparr>]
   \<and> (\<exists>s'. api_str_aspect demo_env [text_obj 50 ''str'', long_obj 51 0, text_obj 1 ''abc''] []
              (two_tainted [])
            = Inr (Some (text_obj 1 ''abc''), s')
          \<and> ranges_of s' (text_obj 1 ''abc'') = [\<lparr>start = 0, rlength = 3, source = ''src1''\<rparr>])"
proof -
  let ?c = "text_obj 1 ''abc''"
  have 1: "PyUnicode_Check ?c" by (simp add: PyUnicode_Check_def text_obj_def)
  have 2: "fault_in (two_tainted []) = None" by (simp add: demo_defs Let_def)
  have r: "ranges_of (two_tainted []) ?c = [\<lparr>start = 0, rlength = 3, source = ''src1''\<rparr>]"
    by (simp add: helper_defs demo_defs Let_def)
  have 3: "ranges_of (two_tainted []) ?c \<noteq> []" unfolding r by simp
  have 4: "PyObject_Str demo_env ?c = Inr ?c"
    by (simp add: demo_env_def demo_interpreter_def demo_str_def text_obj_def)
  have 5: "\<forall>kv \<in> set ([] :: (string \<times> pyobject) list). fst kv \<noteq> ''encoding'' \<and> fst kv \<noteq> ''errors''"
    by simp
  show ?thesis
    using str_aspect_text_keeps_ranges [OF 1 2 3 4 5, of "text_obj 50 ''str''" "long_obj 51 0"]
    unfolding r by simp
qed

text \<open>The loop of \<^verbatim>\<open>set_lengthupdated_ranges\<close> over the references.\<close>

lemma fold_rewrite_length:
  "fold (\<lambda>range h. h(range := (h range)\<lparr>rlength := n\<rparr>)) ranges h a
     = (if a \<in> set ranges then (h a)\<lparr>rlength := n\<rparr> else h a)"
  by (induction ranges arbitrary: h) auto

lemma set_lengthupdated_ranges_no_fault:
  assumes "fault_in s = None" and "tx_map s = Some m" and "m \<noteq> []"
  shows "\<exists>s'. set_lengthupdated_ranges obj n ranges s = Inr ((), s')
           \<and> ranges_of s' obj = map (\<lambda>a. (taint_ranges s a)\<lparr>rlength := n\<rparr>) ranges"
proof -
  let ?s1 = "s\<lparr>taint_ranges :=
                 fold (\<lambda>range h. h(range := (h range)\<lparr>rlength := n\<rparr>)) ranges (taint_ranges s)\<rparr>"
  have "fault_in ?s1 = None" and "tx_map ?s1 = Some m"
    using assms by simp_all
  then obtain s' where stored: "set_ranges obj ranges ?s1 = Inr ((), s')"
    and rec: "ranges_of s' obj = map (taint_ranges ?s1) ranges"
    using set_ranges_no_fault by blast
  have "map (taint_ranges ?s1) ranges = map (\<lambda>a. (taint_ranges s a)\<lparr>rlength := n\<rparr>) ranges"
    by (simp add: fold_rewrite_length)
  moreover have "set_lengthupdated_ranges obj n ranges s = Inr ((), s')"
    using assms stored by (simp add: set_lengthupdated_ranges_def no_tainting_map_def Let_def)
  ultimately show ?thesis
    using rec by simp
qed

text \<open>Giving up a reference does not touch the taint store.\<close>

lemma ranges_of_released [simp]:
  "ranges_of (s\<lparr>released := X\<rparr>) obj = ranges_of s obj"
  by (simp add: ranges_of_def split: option.splits)

text \<open>
  The decoding branch up to line 170, for a tainted bytes or byte array input with an
  encoding or an errors argument: the conversion leaves the decoded output, and the
  propagation reaches the test of \<^verbatim>\<open>check_offset\<close>.
\<close>

lemma decode_reaches_propagation:
  assumes "ob_val text = PyBytes raw \<or> ob_val text = PyByteArray raw"
    and "3 \<le> length args" and "length args \<le> 5"
    and "get_args args kwargs = (n, orig_function, text, pyo_encoding, pyo_errors)"
    and "n \<le> 3"
    and "has_argument pyo_encoding s = (has_encoding, s)"
    and "has_argument pyo_errors s = (has_errors, s)"
    and "has_encoding \<or> has_errors"
    and "py_err s = None"
    and "PyUnicode_Decode E raw
           (if has_encoding then PyUnicode_AsUTF8 pyo_encoding else ''utf-8'')
           (if has_errors then PyUnicode_AsUTF8 pyo_errors else ''strict'') = Inr result_o"
  shows "api_str_aspect E args kwargs s
           = TRY_CATCH_ASPECT ''str_aspect'' result_o (str_propagate E text result_o s)"
proof -
  have textual: "is_text text" and bytes: "PyByteArray_Check text \<or> PyBytes_Check text"
    using assms(1)
    by (auto simp: is_text_def PyUnicode_Check_def PyBytes_Check_def PyByteArray_Check_def)
  have buffer: "(if PyByteArray_Check text then (Some (PyByteArray_AS_STRING text), s)
                 else PyBytes_AsStringAndSize text s) = (Some raw, s)"
    using assms(1)
    by (auto simp: PyByteArray_Check_def PyByteArray_AS_STRING_def PyBytes_AsStringAndSize_def)
  have conv: "convert_text E text has_encoding has_errors pyo_encoding pyo_errors s
                = Inr (Result_o result_o, s)"
  proof -
    have decoding: "\<not> (\<not> has_encoding \<and> \<not> has_errors)"
      using assms(8) by simp
    show ?thesis
      unfolding convert_text_def if_not_P [OF decoding] buffer
      using assms(9) by (simp add: assms(10) PyErr_Occurred_def del: if_split)
  qed
  show ?thesis
    using assms(2,3,5) textual bytes
    by (auto simp: api_str_aspect_def assms(4,6,7) conv)
qed

text \<open>
  Lines 156 to 171 where the input was stringified and its stringified form is not in
  the decoded output: the ranges get the output's length, the reference to
  \<^verbatim>\<open>check_offset\<close> is given up, and the decoded output is returned.
\<close>

lemma decode_fallback_after_stringifying:
  assumes "\<not> PyUnicode_Check text" and "is_text text"
    and "fault_in s = None" and "ranges_of s text \<noteq> []"
    and "PyObject_Str E text = Inr check_offset"
    and "PyUnicode_Find result_o check_offset = - 1"
  shows "\<exists>s'. TRY_CATCH_ASPECT ''str_aspect'' result_o (str_propagate E text result_o s)
                = Inr (Some result_o, s')
           \<and> ranges_of s' result_o =
               map (\<lambda>r. r\<lparr>rlength := PyObject_Length result_o\<rparr>) (ranges_of s text)"
proof -
  obtain m where m: "tx_map s = Some m" "m \<noteq> []"
    using tainted_has_map [OF assms(4)] by blast
  have inst: "range_instances_of s (obj_id text) \<noteq> []"
    using assms(4) by (simp add: ranges_of_instances)
  let ?n = "PyObject_Length result_o"
  let ?ranges = "range_instances_of s (obj_id text)"
  have "\<exists>s'. set_lengthupdated_ranges result_o ?n ?ranges (s\<lparr>py_err := None\<rparr>)
                         = Inr ((), s')
                    \<and> ranges_of s' result_o = map (\<lambda>a. (taint_ranges s a)\<lparr>rlength := ?n\<rparr>) ?ranges"
    using set_lengthupdated_ranges_no_fault [of "s\<lparr>py_err := None\<rparr>" m result_o ?n ?ranges]
      assms(3) m by simp
  then obtain s' where upd: "set_lengthupdated_ranges result_o ?n ?ranges (s\<lparr>py_err := None\<rparr>)
                         = Inr ((), s')"
    and rec: "ranges_of s' result_o = map (\<lambda>a. (taint_ranges s a)\<lparr>rlength := ?n\<rparr>) ?ranges"
    by blast
  have "str_propagate E text result_o s
          = Inr (Completed, s'\<lparr>released := insert (obj_id check_offset) (released s')\<rparr>)"
    using m inst assms(1,5,6) upd
    by (simp add: str_propagate_def no_tainting_map_def
        get_ranges_no_fault [OF assms(3,2)] PyErr_Clear_def Py_DECREF_def)
  then show ?thesis
    using rec by (simp add: TRY_CATCH_ASPECT_def ranges_of_instances [of s "text"] comp_def)
qed

text \<open>
  Lines 156 to 171 where the input could not be stringified: the error is cleared, the
  ranges get the output's length and are stored for the output, and then
  \<^verbatim>\<open>Py_DECREF\<close> is applied to the null \<^verbatim>\<open>check_offset\<close>. Nothing is returned.
\<close>

lemma decode_fallback_without_stringifying:
  assumes "\<not> PyUnicode_Check text" and "is_text text"
    and "fault_in s = None" and "ranges_of s text \<noteq> []"
    and "PyObject_Str E text = Inl err"
  shows "\<exists>s'. TRY_CATCH_ASPECT ''str_aspect'' result_o (str_propagate E text result_o s)
                = Inl (died, s')
           \<and> ranges_of s' result_o =
               map (\<lambda>r. r\<lparr>rlength := PyObject_Length result_o\<rparr>) (ranges_of s text)"
proof -
  obtain m where m: "tx_map s = Some m" "m \<noteq> []"
    using tainted_has_map [OF assms(4)] by blast
  have inst: "range_instances_of s (obj_id text) \<noteq> []"
    using assms(4) by (simp add: ranges_of_instances)
  let ?n = "PyObject_Length result_o"
  let ?ranges = "range_instances_of s (obj_id text)"
  have "\<exists>s'. set_lengthupdated_ranges result_o ?n ?ranges (s\<lparr>py_err := None\<rparr>)
                         = Inr ((), s')
                    \<and> ranges_of s' result_o = map (\<lambda>a. (taint_ranges s a)\<lparr>rlength := ?n\<rparr>) ?ranges"
    using set_lengthupdated_ranges_no_fault [of "s\<lparr>py_err := None\<rparr>" m result_o ?n ?ranges]
      assms(3) m by simp
  then obtain s' where upd: "set_lengthupdated_ranges result_o ?n ?ranges (s\<lparr>py_err := None\<rparr>)
                         = Inr ((), s')"
    and rec: "ranges_of s' result_o = map (\<lambda>a. (taint_ranges s a)\<lparr>rlength := ?n\<rparr>) ?ranges"
    by blast
  have "str_propagate E text result_o s = Inr (Null_dereference, s')"
    using m inst assms(1,5) upd
    by (simp add: str_propagate_def no_tainting_map_def
        get_ranges_no_fault [OF assms(3,2)] PyErr_Clear_def set_error_def Py_DECREF_def)
  then show ?thesis
    using rec by (simp add: TRY_CATCH_ASPECT_def ranges_of_instances [of s "text"] comp_def)
qed

text \<open>
  Claim C7 at a failing input. The claim has every decoded input whose stringified form
  cannot be located in the output keep its ranges with the output's length. Take the
  bytes \<open>0xFF a b\<close> with the range \<open>(0, 3, src1)\<close>, decoded as utf-8 with errors ignored
  to \<open>ab\<close>. Where the stringified bytes are computed and not found in \<open>ab\<close>, the output
  is returned with the range \<open>(0, 2, src1)\<close>, as claimed. Where \<^verbatim>\<open>PyObject_Str(text)\<close>
  fails (an interpreter that turns \<^verbatim>\<open>BytesWarning\<close> into an error, or a subclass of
  bytes whose \<^verbatim>\<open>__str__\<close> raises), the stringified form cannot be located either: the
  code stores the range \<open>(0, 2, src1)\<close> for the output and then dereferences the null
  \<^verbatim>\<open>check_offset\<close> at line 171, so no output is returned.
\<close>

theorem str_aspect_decode_dies_without_stringified_text:
  "(\<exists>s'. api_str_aspect demo_env
            [text_obj 50 ''str'', long_obj 51 0, bytes_obj 1 [CHR 0xFF, CHR ''a'', CHR ''b''],
             text_obj 52 ''utf-8'', text_obj 53 ''ignore''] [] (two_tainted [])
          = Inr (Some (decoded_object (PyUnicode ''ab'')), s')
        \<and> ranges_of s' (decoded_object (PyUnicode ''ab''))
            = [\<lparr>start = 0, rlength = 2, source = ''src1''\<rparr>])
   \<and> (\<exists>s'. api_str_aspect
            (demo_env\<lparr>PyObject_Str :=
                        (\<lambda>obj. Inl (PyExc_BytesWarning ''str() on a bytes instance''))\<rparr>)
            [text_obj 50 ''str'', long_obj 51 0, bytes_obj 1 [CHR 0xFF, CHR ''a'', CHR ''b''],
             text_obj 52 ''utf-8'', text_obj 53 ''ignore''] [] (two_tainted [])
          = Inl (died, s')
        \<and> ranges_of s' (decoded_object (PyUnicode ''ab''))
            = [\<lparr>start = 0, rlength = 2, source = ''src1''\<rparr>])"
proof -
  let ?b = "bytes_obj 1 [CHR 0xFF, CHR ''a'', CHR ''b'']"
  let ?enc = "text_obj 52 ''utf-8''" and ?err = "text_obj 53 ''ignore''"
  let ?args = "[text_obj 50 ''str'', long_obj 51 0, ?b, ?enc, ?err]"
  let ?res = "decoded_object (PyUnicode ''ab'')"
  let ?s = "two_tainted []"
  let ?E = "demo_env\<lparr>PyObject_Str :=
                       (\<lambda>obj. Inl (PyExc_BytesWarning ''str() on a bytes instance''))\<rparr>"
  have 1: "ob_val ?b = PyBytes [CHR 0xFF, CHR ''a'', CHR ''b'']
           \<or> ob_val ?b = PyByteArray [CHR 0xFF, CHR ''a'', CHR ''b'']"
    by (simp add: bytes_obj_def)
  have 2: "3 \<le> length ?args" and 3: "length ?args \<le> 5" by simp_all
  have 4: "get_args ?args [] = (3, text_obj 50 ''str'', ?b, Some ?enc, Some ?err)"
    by (simp add: get_args_def)
  have 5: "(3::nat) \<le> 3" by simp
  have 6: "has_argument (Some ?enc) ?s = (True, ?s)"
    and 7: "has_argument (Some ?err) ?s = (True, ?s)"
    by (simp_all add: has_argument_def PyUnicode_GetLength_def text_obj_def)
  have 8: "True \<or> True" by simp
  have 9: "py_err ?s = None" and 10: "fault_in ?s = None"
    by (simp_all add: demo_defs Let_def)
  have r: "ranges_of ?s ?b = [\<lparr>start = 0, rlength = 3, source = ''src1''\<rparr>]"
    by (simp add: helper_defs demo_defs Let_def)
  have 11: "ranges_of ?s ?b \<noteq> []" unfolding r by simp
  have 12: "PyUnicode_Decode demo_env [CHR 0xFF, CHR ''a'', CHR ''b'']
              (if True then PyUnicode_AsUTF8 (Some ?enc) else ''utf-8'')
              (if True then PyUnicode_AsUTF8 (Some ?err) else ''strict'') = Inr ?res"
    by (simp add: demo_env_def demo_interpreter_def demo_decode_def PyUnicode_AsUTF8_def
        text_obj_def)
  have dec: "PyUnicode_Decode ?E [CHR 0xFF, CHR ''a'', CHR ''b'']
              (if True then PyUnicode_AsUTF8 (Some ?enc) else ''utf-8'')
              (if True then PyUnicode_AsUTF8 (Some ?err) else ''strict'') = Inr ?res"
    using 12 by simp
  have f: "PyUnicode_Find ?res
             (new_object (PyUnicode (''b'' @ [CHR 0x27] @ [CHR 0xFF, CHR ''a'', CHR ''b''] @ [CHR 0x27])))
           = - 1"
    by (simp add: PyUnicode_Find_def PyUnicode_AsUTF8_def decoded_object_def new_object_def upt_rec)
  have 13: "PyObject_Str demo_env ?b
              = Inr (new_object (PyUnicode (''b'' @ [CHR 0x27] @ [CHR 0xFF, CHR ''a'', CHR ''b''] @ [CHR 0x27])))"
    by (simp add: demo_env_def demo_interpreter_def demo_str_def bytes_obj_def)
  have unstr: "PyObject_Str ?E ?b = Inl (PyExc_BytesWarning ''str() on a bytes instance'')"
    by simp
  have not_unicode: "\<not> PyUnicode_Check ?b" and textual: "is_text ?b"
    by (simp_all add: is_text_def PyUnicode_Check_def PyBytes_Check_def bytes_obj_def)
  have len: "PyObject_Length ?res = 2"
    by (simp add: PyObject_Length_def decoded_object_def)
  have "\<exists>s'. api_str_aspect demo_env ?args [] ?s = Inr (Some ?res, s')
          \<and> ranges_of s' ?res = [\<lparr>start = 0, rlength = 2, source = ''src1''\<rparr>]"
    using decode_fallback_after_stringifying [OF not_unicode textual 10 11 13 f]
    unfolding decode_reaches_propagation [OF 1 2 3 4 5 6 7 8 9 12] r len by simp
  moreover have "\<exists>s'. api_str_aspect ?E ?args [] ?s = Inl (died, s')
          \<and> ranges_of s' ?res = [\<lparr>start = 0, rlength = 2, source = ''src1''\<rparr>]"
    using decode_fallback_without_stringifying [OF not_unicode textual 10 11 unstr, of ?res]
    unfolding decode_reaches_propagation [OF 1 2 3 4 5 6 7 8 9 dec] r len by simp
  ultimately show ?thesis
    by blast
qed

section \<open>Faults during propagation\<close>

text \<open>
  Claim C5 at two failing inputs. The claim has every fault that occurs while the ranges
  are computed or stored caught and logged, and the already-computed result returned.

  In \<open>abc + de\<close> with only the left operand tainted, let the store of line 46 throw
  \<^verbatim>\<open>std::bad_alloc\<close> (the fourth helper call). The catch clause logs the failure and
  returns \<^verbatim>\<open>result_o\<close>, but line 45 has already called \<^verbatim>\<open>Py_DecRef(result_o)\<close>: the
  pointer handed to the caller is one whose reference the aspect gave up.

  In the decoding of the tainted byte array \<open>abc\<close> as utf-8, let \<^verbatim>\<open>PyObject_Str(text)\<close>
  of line 157 fail. The error is cleared and the ranges are stored, and then line 171
  dereferences the null \<^verbatim>\<open>check_offset\<close>: nothing is caught or logged, and the decoded
  \<open>abc\<close> is not returned.
\<close>

theorem propagation_faults_lose_the_result:
  "(case api_add_aspect demo_env [text_obj 1 ''abc'', text_obj 2 ''de'']
          ((two_tainted [])\<lparr>tx_map := Some [(1, 0)],
                             fault_in := Some (3, std_exception ''bad_alloc'')\<rparr>) of
      (Some r, s') \<Rightarrow>
        r = new_object (PyUnicode ''abcde'')
        \<and> obj_id r \<in> released s'
        \<and> iast_log s' = [''IAST propagation error in add_aspect. bad_alloc'']
    | _ \<Rightarrow> False)
   \<and> (\<exists>s'. api_str_aspect
            (demo_env\<lparr>PyObject_Str :=
                        (\<lambda>obj. Inl (PyExc_BytesWarning ''str() on a bytes instance''))\<rparr>)
            [text_obj 50 ''str'', long_obj 51 0, bytearray_obj 1 ''abc'', text_obj 52 ''utf-8'']
            [] (two_tainted [])
          = Inl (died, s')
        \<and> iast_log s' = [])"
proof -
  let ?b = "bytearray_obj 1 ''abc''"
  let ?enc = "text_obj 52 ''utf-8''"
  let ?args = "[text_obj 50 ''str'', long_obj 51 0, ?b, ?enc]"
  let ?res = "decoded_object (PyUnicode ''abc'')"
  let ?s = "two_tainted []"
  let ?E = "demo_env\<lparr>PyObject_Str :=
                       (\<lambda>obj. Inl (PyExc_BytesWarning ''str() on a bytes instance''))\<rparr>"
  have added:
    "(case api_add_aspect demo_env [text_obj 1 ''abc'', text_obj 2 ''de'']
          ((two_tainted [])\<lparr>tx_map := Some [(1, 0)],
                             fault_in := Some (3, std_exception ''bad_alloc'')\<rparr>) of
      (Some r, s') \<Rightarrow>
        r = new_object (PyUnicode ''abcde'')
        \<and> obj_id r \<in> released s'
        \<and> iast_log s' = [''IAST propagation error in add_aspect. bad_alloc'']
    | _ \<Rightarrow> False)"
    by (simp add: api_add_aspect_def no_tainting_map_def
        args_are_text_and_same_type_def is_text_def PyUnicode_Check_def
        PyObject_Type_def is_notinterned_notfasttainted_unicode_def
        demo_add_def add_aspect_def iast_taint_log_error_def add_error_message_def
        helper_defs demo_defs Let_def)
  have decoded:
    "\<exists>s'. api_str_aspect ?E ?args [] ?s = Inl (died, s') \<and> iast_log s' = []"
    by (simp add: api_str_aspect_def get_args_def has_argument_def PyUnicode_GetLength_def
        convert_text_def PyByteArray_AS_STRING_def PyUnicode_AsUTF8_def PyErr_Occurred_def
        demo_decode_def str_propagate_def get_ranges_def set_lengthupdated_ranges_def
        set_ranges_def PyErr_Clear_def set_error_def Py_DECREF_def TRY_CATCH_ASPECT_def
        PyObject_Length_def no_tainting_map_def is_text_def PyUnicode_Check_def
        PyBytes_Check_def PyByteArray_Check_def helper_defs demo_defs Let_def)
  from added decoded show ?thesis
    by blast
qed

section \<open>The str aspect against the built-in\<close>

text \<open>
  Claim C4 at a failing input. The claim has every aspect return what the
  un-instrumented operation would have produced. For \<^verbatim>\<open>str(5, errors="strict")\<close> the
  built-in refuses to decode an integer; the aspect tests only \<^verbatim>\<open>has_encoding\<close> before
  it stringifies a value that is not text-like, and returns the text \<open>5\<close>.
\<close>

theorem str_aspect_errors_argument_on_integer:
  "api_str_aspect demo_env [text_obj 50 ''str'', long_obj 51 0, long_obj 5 5]
       [(''errors'', text_obj 52 ''strict'')] demo_state
     = Inr (Some (new_object (PyUnicode ''5'')), demo_state)
   \<and> builtin_str demo_env (long_obj 5 5) None (Some (text_obj 52 ''strict''))
     = Inl (PyExc_TypeError ''decoding to str: need a bytes-like object, int found'')"
  by (simp add: api_str_aspect_def get_args_def has_argument_def PyUnicode_GetLength_def
      PyByteArray_Check_def PyBytes_Check_def PyUnicode_Check_def is_text_def
      builtin_str_def tp_name_def demo_env_def demo_interpreter_def demo_str_def
      text_obj_def long_obj_def to_string.simps [of 5])

text \<open>
  Claim C8 at a failing input. The claim has a call with more than three effective
  arguments fail exactly as the built-in does. For \<^verbatim>\<open>str(b"x", "utf-8", "strict",
  encoding="utf-8", errors="strict")\<close> the built-in reports the five arguments it was
  given; the loop of \<^verbatim>\<open>get_args\<close> stops counting at the first argument past the third,
  and the aspect's message reports four.
\<close>

theorem str_aspect_counts_four_of_five_arguments:
  "api_str_aspect demo_env
       [text_obj 50 ''str'', long_obj 51 0, bytes_obj 5 ''x'', text_obj 52 ''utf-8'',
        text_obj 53 ''strict'']
       [(''encoding'', text_obj 52 ''utf-8''), (''errors'', text_obj 53 ''strict'')] demo_state
     = Inr (None,
            set_error (PyExc_TypeError ''str() takes at most 3 arguments (4 given)'') demo_state)
   \<and> builtin_str_arity_error 3 2
     = Some (PyExc_TypeError ''str() takes at most 3 arguments (5 given)'')"
  by (simp add: api_str_aspect_def get_args_def builtin_str_arity_error_def
      to_string.simps [of 4] to_string.simps [of 5])


end
